theory Spec2Isabelle
  imports Complex_Main
begin

section \<open>JavaScript values\<close>

text \<open>
  A field of a JavaScript object holds a value of its documented type, or \<open>undefined\<close>,
  or \<open>null\<close>. Strings are lists of 8-bit characters (ASCII text); a value whose
  \<open>typeof\<close> is \<open>'number'\<close> is a finite real, \<open>NaN\<close> or an infinity.
\<close>

datatype 'a js = Undefined | Null | Val 'a

datatype jsnum = Fin real | NaN | PosInf | NegInf

text \<open>A default parameter value replaces \<open>undefined\<close> only.\<close>

definition dflt :: "'a js \<Rightarrow> 'a js \<Rightarrow> 'a js" where
  "dflt d v = (case v of Undefined \<Rightarrow> d | _ \<Rightarrow> v)"

text \<open>Truthiness of a string-or-absent value: \<open>!v\<close> is \<open>\<not> truthy v\<close>.\<close>

definition truthy :: "string js \<Rightarrow> bool" where
  "truthy v = (case v of Val s \<Rightarrow> s \<noteq> [] | _ \<Rightarrow> False)"

text \<open>\<open>typeof v === 'number'\<close>.\<close>

definition is_number :: "jsnum js \<Rightarrow> bool" where
  "is_number v = (case v of Val _ \<Rightarrow> True | _ \<Rightarrow> False)"

text \<open>\<open>n < c\<close> and \<open>n > c\<close> for a number \<open>n\<close> and a finite constant \<open>c\<close>;
  every comparison with \<open>NaN\<close> is false.\<close>

definition num_lt :: "jsnum \<Rightarrow> real \<Rightarrow> bool" where
  "num_lt n c = (case n of Fin r \<Rightarrow> r < c | NegInf \<Rightarrow> True | _ \<Rightarrow> False)"

definition num_gt :: "jsnum \<Rightarrow> real \<Rightarrow> bool" where
  "num_gt n c = (case n of Fin r \<Rightarrow> c < r | PosInf \<Rightarrow> True | _ \<Rightarrow> False)"

text \<open>String conversion inside a template literal.\<close>

definition str_of :: "string js \<Rightarrow> string" where
  "str_of v = (case v of Undefined \<Rightarrow> ''undefined'' | Null \<Rightarrow> ''null'' | Val s \<Rightarrow> s)"

definition digit_char :: "nat \<Rightarrow> char" where
  "digit_char d = ''0123456789'' ! d"

function show_nat :: "nat \<Rightarrow> string" where
  "show_nat n = (if n < 10 then [digit_char n] else show_nat (n div 10) @ [digit_char (n mod 10)])"
  by pat_completeness auto
termination
  by (relation "measure id") auto

declare show_nat.simps [simp del]

text \<open>\<open>Array.prototype.join\<close> on an array of strings.\<close>

fun join :: "string \<Rightarrow> string list \<Rightarrow> string" where
  "join sep [] = []"
| "join sep [x] = x"
| "join sep (x # y # ys) = x @ sep @ join sep (y # ys)"

text \<open>\<open>String.prototype.trim\<close> on ASCII text.\<close>

definition is_ws :: "char \<Rightarrow> bool" where
  "is_ws c = (c \<in> {CHR '' '', CHR 0x09, CHR 0x0A, CHR 0x0B, CHR 0x0C, CHR 0x0D})"

definition trim :: "string \<Rightarrow> string" where
  "trim s = rev (dropWhile is_ws (rev (dropWhile is_ws s)))"

text \<open>\<open>hay.includes(needle)\<close>.\<close>

definition str_includes :: "string \<Rightarrow> string \<Rightarrow> bool" where
  "str_includes hay needle = (\<exists>i \<in> set [0 ..< Suc (length hay)]. take (length needle) (drop i hay) = needle)"

section \<open>The intermediate representation (models/dfdir.js)\<close>

record DFDElement =
  el_id :: "string js"
  el_name :: "string js"
  el_type :: "string js"
  el_x :: "jsnum js"
  el_y :: "jsnum js"
  el_ipAddress :: "string js"
  el_services :: "string list js"
  el_metadata :: "(string \<times> string) list js"
  el_confidence :: "jsnum js"
  el_source :: "string js"

text \<open>The constructor destructures its argument object, with defaults.\<close>

definition DFDElement_new :: "DFDElement \<Rightarrow> DFDElement" where
  "DFDElement_new a =
     \<lparr> el_id = el_id a,
       el_name = el_name a,
       el_type = el_type a,
       el_x = dflt (Val (Fin 100)) (el_x a),
       el_y = dflt (Val (Fin 100)) (el_y a),
       el_ipAddress = dflt Null (el_ipAddress a),
       el_services = dflt (Val []) (el_services a),
       el_metadata = dflt (Val []) (el_metadata a),
       el_confidence = dflt (Val (Fin 100)) (el_confidence a),
       el_source = dflt (Val ''manual'') (el_source a) \<rparr>"

definition confidence_out_of_range :: "jsnum js \<Rightarrow> bool" where
  "confidence_out_of_range c =
     (case c of Val n \<Rightarrow> num_lt n 0 \<or> num_gt n 100 | _ \<Rightarrow> True)"

definition blank :: "string js \<Rightarrow> bool" where
  "blank v = (case v of Val s \<Rightarrow> trim s = [] | _ \<Rightarrow> False)"

definition DFDElement_validate :: "DFDElement \<Rightarrow> string list" where
  "DFDElement_validate e =
     (if \<not> truthy (el_id e) then [''Element missing ID''] else []) @
     (if \<not> truthy (el_name e) \<or> blank (el_name e) then [''Element missing name''] else []) @
     (if el_type e \<notin> {Val ''actor'', Val ''process'', Val ''store''}
      then [''Invalid element type: '' @ str_of (el_type e)] else []) @
     (if \<not> is_number (el_x e) \<or> \<not> is_number (el_y e)
      then [''Element position must be numeric''] else []) @
     (if confidence_out_of_range (el_confidence e)
      then [''Confidence must be between 0 and 100''] else [])"

definition DFDElement_toJSON :: "DFDElement \<Rightarrow> DFDElement" where
  "DFDElement_toJSON e =
     \<lparr> el_id = el_id e, el_name = el_name e, el_type = el_type e, el_x = el_x e,
       el_y = el_y e, el_ipAddress = el_ipAddress e, el_services = el_services e,
       el_metadata = el_metadata e, el_confidence = el_confidence e,
       el_source = el_source e \<rparr>"

record DFDFlow =
  fl_id :: "string js"
  fl_sourceId :: "string js"
  fl_targetId :: "string js"
  fl_protocol :: "string js"
  fl_isEncrypted :: "bool js"
  fl_isPublicNetwork :: "bool js"
  fl_metadata :: "(string \<times> string) list js"
  fl_confidence :: "jsnum js"
  fl_source :: "string js"

definition DFDFlow_new :: "DFDFlow \<Rightarrow> DFDFlow" where
  "DFDFlow_new a =
     \<lparr> fl_id = fl_id a,
       fl_sourceId = fl_sourceId a,
       fl_targetId = fl_targetId a,
       fl_protocol = dflt (Val ''HTTPS'') (fl_protocol a),
       fl_isEncrypted = dflt (Val True) (fl_isEncrypted a),
       fl_isPublicNetwork = dflt (Val False) (fl_isPublicNetwork a),
       fl_metadata = dflt (Val []) (fl_metadata a),
       fl_confidence = dflt (Val (Fin 100)) (fl_confidence a),
       fl_source = dflt (Val ''manual'') (fl_source a) \<rparr>"

definition DFDFlow_validate :: "DFDFlow \<Rightarrow> string list" where
  "DFDFlow_validate f =
     (if \<not> truthy (fl_id f) then [''Flow missing ID''] else []) @
     (if \<not> truthy (fl_sourceId f) then [''Flow missing source ID''] else []) @
     (if \<not> truthy (fl_targetId f) then [''Flow missing target ID''] else []) @
     (if fl_sourceId f = fl_targetId f
      then [''Flow source and target cannot be the same''] else []) @
     (if confidence_out_of_range (fl_confidence f)
      then [''Confidence must be between 0 and 100''] else [])"

definition DFDFlow_toJSON :: "DFDFlow \<Rightarrow> DFDFlow" where
  "DFDFlow_toJSON f =
     \<lparr> fl_id = fl_id f, fl_sourceId = fl_sourceId f, fl_targetId = fl_targetId f,
       fl_protocol = fl_protocol f, fl_isEncrypted = fl_isEncrypted f,
       fl_isPublicNetwork = fl_isPublicNetwork f, fl_metadata = fl_metadata f,
       fl_confidence = fl_confidence f, fl_source = fl_source f \<rparr>"


text \<open>
  The container. \<open>created\<close> is the timestamp the constructor reads from the clock;
  it is passed in.
\<close>

record DFDIR =
  d_name :: "string js"
  d_elements :: "DFDElement list"
  d_flows :: "DFDFlow list"
  d_metadata :: "(string \<times> string js) list js"

definition DFDIR_new :: "string \<Rightarrow> string js \<Rightarrow> DFDIR" where
  "DFDIR_new created name =
     \<lparr> d_name = dflt (Val ''Untitled'') name,
       d_elements = [],
       d_flows = [],
       d_metadata = Val [(''created'', Val created), (''source'', Null),
                         (''extractionMethod'', Null)] \<rparr>"

text \<open>\<open>addElement\<close> and \<open>addFlow\<close> throw on a duplicate id; the thrown message is \<open>Inl\<close>.\<close>

definition addElement :: "DFDElement \<Rightarrow> DFDIR \<Rightarrow> string + DFDIR" where
  "addElement element d =
     (if find (\<lambda>el. el_id el = el_id element) (d_elements d) \<noteq> None
      then Inl (''Element with ID '' @ str_of (el_id element) @ '' already exists'')
      else Inr (d\<lparr>d_elements := d_elements d @ [element]\<rparr>))"

definition addFlow :: "DFDFlow \<Rightarrow> DFDIR \<Rightarrow> string + DFDIR" where
  "addFlow flow d =
     (if find (\<lambda>f. fl_id f = fl_id flow) (d_flows d) \<noteq> None
      then Inl (''Flow with ID '' @ str_of (fl_id flow) @ '' already exists'')
      else Inr (d\<lparr>d_flows := d_flows d @ [flow]\<rparr>))"

definition getElementById :: "DFDIR \<Rightarrow> string js \<Rightarrow> DFDElement option" where
  "getElementById d i = find (\<lambda>el. el_id el = i) (d_elements d)"

definition getFlowById :: "DFDIR \<Rightarrow> string js \<Rightarrow> DFDFlow option" where
  "getFlowById d i = find (\<lambda>f. fl_id f = i) (d_flows d)"

text \<open>\<open>removeElement\<close> and \<open>removeFlow\<close> return the flag and the updated container.
  \<open>splice(index, 1)\<close> at the index of the first match removes that one entry.\<close>

fun remove_first :: "('a \<Rightarrow> bool) \<Rightarrow> 'a list \<Rightarrow> 'a list" where
  "remove_first P [] = []"
| "remove_first P (x # xs) = (if P x then xs else x # remove_first P xs)"

definition removeElement :: "string js \<Rightarrow> DFDIR \<Rightarrow> bool \<times> DFDIR" where
  "removeElement i d =
     (if find (\<lambda>el. el_id el = i) (d_elements d) = None then (False, d)
      else (True, d\<lparr>d_flows := filter (\<lambda>flow. fl_sourceId flow \<noteq> i \<and> fl_targetId flow \<noteq> i) (d_flows d),
                     d_elements := remove_first (\<lambda>el. el_id el = i) (d_elements d)\<rparr>))"

definition removeFlow :: "string js \<Rightarrow> DFDIR \<Rightarrow> bool \<times> DFDIR" where
  "removeFlow i d =
     (if find (\<lambda>f. fl_id f = i) (d_flows d) = None then (False, d)
      else (True, d\<lparr>d_flows := remove_first (\<lambda>f. fl_id f = i) (d_flows d)\<rparr>))"

record validation =
  v_valid :: bool
  v_errors :: "string list"

text \<open>The two \<open>forEach\<close> loops of \<open>validate\<close>, with the running index.\<close>

fun element_errors :: "nat \<Rightarrow> DFDElement list \<Rightarrow> string list" where
  "element_errors index [] = []"
| "element_errors index (element # rest) =
     (let elementErrors = DFDElement_validate element in
        (if elementErrors \<noteq> []
         then [''Element '' @ show_nat index @ '' ('' @ str_of (el_name element) @ ''): ''
                 @ join '', '' elementErrors]
         else []))
     @ element_errors (Suc index) rest"

fun flow_errors :: "DFDIR \<Rightarrow> nat \<Rightarrow> DFDFlow list \<Rightarrow> string list" where
  "flow_errors d index [] = []"
| "flow_errors d index (flow # rest) =
     (let flowErrors = DFDFlow_validate flow in
        (if flowErrors \<noteq> []
         then [''Flow '' @ show_nat index @ '': '' @ join '', '' flowErrors]
         else []))
     @ (if getElementById d (fl_sourceId flow) = None
        then [''Flow '' @ show_nat index @ '': Source element '' @ str_of (fl_sourceId flow)
                @ '' not found'']
        else [])
     @ (if getElementById d (fl_targetId flow) = None
        then [''Flow '' @ show_nat index @ '': Target element '' @ str_of (fl_targetId flow)
                @ '' not found'']
        else [])
     @ flow_errors d (Suc index) rest"

definition DFDIR_validate :: "DFDIR \<Rightarrow> validation" where
  "DFDIR_validate d =
     (let errors = element_errors 0 (d_elements d)
                   @ flow_errors d 0 (d_flows d)
                   @ (if d_elements d = [] then [''DFDIR contains no elements''] else [])
      in \<lparr> v_valid = (errors = []), v_errors = errors \<rparr>)"

text \<open>Serialisation. The JSON object has the fields of the container, with plain
  objects for the elements and flows.\<close>

definition DFDIR_toJSON :: "DFDIR \<Rightarrow> DFDIR" where
  "DFDIR_toJSON d =
     \<lparr> d_name = d_name d,
       d_elements = map DFDElement_toJSON (d_elements d),
       d_flows = map DFDFlow_toJSON (d_flows d),
       d_metadata = d_metadata d \<rparr>"

fun add_elements :: "DFDElement list \<Rightarrow> DFDIR \<Rightarrow> string + DFDIR" where
  "add_elements [] d = Inr d"
| "add_elements (elData # rest) d =
     (case addElement (DFDElement_new elData) d of
        Inl err \<Rightarrow> Inl err
      | Inr d' \<Rightarrow> add_elements rest d')"

fun add_flows :: "DFDFlow list \<Rightarrow> DFDIR \<Rightarrow> string + DFDIR" where
  "add_flows [] d = Inr d"
| "add_flows (flowData # rest) d =
     (case addFlow (DFDFlow_new flowData) d of
        Inl err \<Rightarrow> Inl err
      | Inr d' \<Rightarrow> add_flows rest d')"

text \<open>\<open>json.metadata || dfdir.metadata\<close>: an object is truthy.\<close>

definition DFDIR_fromJSON :: "string \<Rightarrow> DFDIR \<Rightarrow> string + DFDIR" where
  "DFDIR_fromJSON created json =
     (let dfdir = DFDIR_new created (d_name json);
          dfdir = dfdir\<lparr>d_metadata := (case d_metadata json of Val m \<Rightarrow> Val m
                                          | _ \<Rightarrow> d_metadata dfdir)\<rparr>
      in case add_elements (d_elements json) dfdir of
           Inl err \<Rightarrow> Inl err
         | Inr dfdir' \<Rightarrow> add_flows (d_flows json) dfdir')"

text \<open>The containers a program can build: created empty, then changed through the
  methods, with elements and flows made by their constructors.\<close>

inductive DFDIR_instance :: "DFDIR \<Rightarrow> bool" where
  created: "DFDIR_instance (DFDIR_new created name)"
| element_added: "DFDIR_instance d \<Longrightarrow> addElement (DFDElement_new a) d = Inr d' \<Longrightarrow> DFDIR_instance d'"
| flow_added: "DFDIR_instance d \<Longrightarrow> addFlow (DFDFlow_new a) d = Inr d' \<Longrightarrow> DFDIR_instance d'"
| element_removed: "DFDIR_instance d \<Longrightarrow> DFDIR_instance (snd (removeElement i d))"
| flow_removed: "DFDIR_instance d \<Longrightarrow> DFDIR_instance (snd (removeFlow i d))"


text \<open>What the methods maintain: distinct element ids, distinct flow ids, and every
  element and flow as its constructor leaves it.\<close>

definition well_formed :: "DFDIR \<Rightarrow> bool" where
  "well_formed d \<longleftrightarrow>
     distinct (map el_id (d_elements d)) \<and> distinct (map fl_id (d_flows d))
     \<and> list_all (\<lambda>e. DFDElement_new (DFDElement_toJSON e) = e) (d_elements d)
     \<and> list_all (\<lambda>f. DFDFlow_new (DFDFlow_toJSON f) = f) (d_flows d)"

section \<open>Validation results (validation/validationResult.js)\<close>

text \<open>An issue and a result; the timestamps and the free-form context are left out.\<close>

record issue =
  i_code :: string
  i_message :: string
  i_path :: string
  i_severity :: string
  i_suggestion :: string

record vresult =
  r_valid :: bool
  r_errors :: "issue list"
  r_warnings :: "issue list"
  r_info :: "issue list"
  r_source :: string

definition createResult :: "string \<Rightarrow> vresult" where
  "createResult source =
     \<lparr> r_valid = True, r_errors = [], r_warnings = [], r_info = [], r_source = source \<rparr>"

definition addError :: "issue \<Rightarrow> vresult \<Rightarrow> vresult" where
  "addError e r = r\<lparr>r_errors := r_errors r @ [e], r_valid := False\<rparr>"

definition addWarning :: "issue \<Rightarrow> vresult \<Rightarrow> vresult" where
  "addWarning w r = r\<lparr>r_warnings := r_warnings r @ [w]\<rparr>"

definition merge :: "vresult \<Rightarrow> vresult \<Rightarrow> vresult" where
  "merge other r =
     r\<lparr>r_errors := r_errors r @ r_errors other,
       r_warnings := r_warnings r @ r_warnings other,
       r_info := r_info r @ r_info other,
       r_valid := (if r_errors other \<noteq> [] then False else r_valid r)\<rparr>"

definition fromStringErrors :: "string list \<Rightarrow> string \<Rightarrow> vresult" where
  "fromStringErrors errorStrings source =
     fold (\<lambda>msg. addError \<lparr> i_code = ''UNKNOWN_ERROR'', i_message = msg, i_path = [],
                             i_severity = ''error'', i_suggestion = [] \<rparr>)
          errorStrings
          ((createResult source)\<lparr>r_valid := (errorStrings = [])\<rparr>)"

section \<open>Render-time cell validation (validation/cellValidator.js)\<close>

record endpoint =
  ep_cell :: "string js"
  ep_id :: "string js"

record point =
  pt_x :: "jsnum js"
  pt_y :: "jsnum js"

record extent =
  sz_width :: "jsnum js"
  sz_height :: "jsnum js"

record cell_data =
  cd_type :: "string js"
  cd_name :: "string js"
  cd_description :: "string js"
  cd_isEncrypted :: "bool js"
  cd_isPublicNetwork :: "bool js"
  cd_protocol :: "string js"

record cell =
  c_id :: "string js"
  c_shape :: "string js"
  c_zIndex :: "jsnum js"
  c_position :: "point js"
  c_size :: "extent js"
  c_data :: "cell_data js"
  c_source :: "endpoint js"
  c_target :: "endpoint js"
  c_stroke :: "string js"
  c_label :: "string js"

definition ValidShapes :: "string list" where
  "ValidShapes = [''actor'', ''process'', ''store'', ''flow'', ''trust-boundary-box'',
                  ''trust-broundary-curve'', ''td-text-block'']"

definition ShapeAliases :: "(string \<times> string) list" where
  "ShapeAliases = [(''tm.Actor'', ''actor''), (''tm.Process'', ''process''),
                   (''tm.Store'', ''store''), (''tm.Flow'', ''flow''),
                   (''tm.Boundary'', ''trust-boundary-box''),
                   (''tm.BoundaryBox'', ''trust-boundary-box'')]"

definition isValidShape :: "string js \<Rightarrow> bool" where
  "isValidShape shape =
     (if \<not> truthy shape then False
      else (case shape of
              Val s \<Rightarrow> s \<in> set ValidShapes \<or> s \<in> set (map fst ShapeAliases)
            | _ \<Rightarrow> False))"

definition present :: "'a js \<Rightarrow> bool" where
  "present v = (case v of Val _ \<Rightarrow> True | _ \<Rightarrow> False)"


text \<open>The map from cell ids to cells: an insertion-ordered association list.\<close>

fun map_set :: "'k \<Rightarrow> 'v \<Rightarrow> ('k \<times> 'v) list \<Rightarrow> ('k \<times> 'v) list" where
  "map_set k v [] = [(k, v)]"
| "map_set k v ((k', v') # rest) =
     (if k' = k then (k, v) # rest else (k', v') # map_set k v rest)"










text \<open>A result is sound when its flag says whether it has errors and no error is an
  orphan report.\<close>

definition sound :: "vresult \<Rightarrow> bool" where
  "sound r \<longleftrightarrow> (r_valid r \<longleftrightarrow> r_errors r = []) \<and> ''ORPHAN_FLOW'' \<notin> i_code ` set (r_errors r)"



section \<open>The validation service and the converter\<close>

text \<open>\<open>validateDFDIR\<close> of the validation service, on a container object (which is
  truthy and has a \<open>validate\<close> method).\<close>

definition validateDFDIR :: "DFDIR \<Rightarrow> vresult" where
  "validateDFDIR dfdir =
     (let result = createResult ''validationService.dfdir'';
          dfdirValidation = DFDIR_validate dfdir
      in if \<not> v_valid dfdirValidation
         then merge (fromStringErrors (v_errors dfdirValidation) ''dfdir'') result
         else result)"

record options =
  o_diagramName :: "string js"
  o_diagramDescription :: "string js"
  o_projectName :: "string js"
  o_projectOwner :: "string js"
  o_includeMetadata :: "bool js"

record diagram =
  g_title :: "string js"
  g_placeholder :: "string js"
  g_cells :: "cell list"

text \<open>The emitted model, in the fields that the validators and the renderer read. The
  project description (a text built from the statistics) and the optional metadata copied
  into \<open>cell.data\<close> under \<open>includeMetadata\<close> are not part of it here.\<close>

record threat_model =
  t_version :: string
  t_title :: "string js"
  t_owner :: "string js"
  t_diagrams :: "diagram list"

definition getStrokeColor :: "DFDElement \<Rightarrow> string" where
  "getStrokeColor element =
     (case el_confidence element of
        Val (Fin c) \<Rightarrow> (if 85 \<le> c then ''#333333'' else if 70 \<le> c then ''#FFA726'' else ''#E53935'')
      | Val PosInf \<Rightarrow> ''#333333''
      | _ \<Rightarrow> ''#E53935'')"

definition meta_get :: "string \<Rightarrow> (string \<times> string) list js \<Rightarrow> string js" where
  "meta_get k m = (case m of Val kv \<Rightarrow> (case map_of kv k of Some v \<Rightarrow> Val v | None \<Rightarrow> Undefined)
                   | _ \<Rightarrow> Undefined)"

definition buildDescription :: "DFDElement \<Rightarrow> string" where
  "buildDescription element =
     (let parts =
            (if truthy (el_ipAddress element) then [''IP: '' @ str_of (el_ipAddress element)] else [])
          @ (case el_services element of
               Val sv \<Rightarrow> (if sv \<noteq> [] then [''Services: '' @ join '', '' sv] else [])
             | _ \<Rightarrow> [])
          @ (if truthy (meta_get ''role'' (el_metadata element))
             then [''Role: '' @ str_of (meta_get ''role'' (el_metadata element))] else []);
          parts = (if parts = []
                   then [if el_type element = Val ''actor'' then ''External entity''
                         else if el_type element = Val ''store'' then ''Data store''
                         else ''System component'']
                   else parts)
      in join '' | '' parts)"

definition buildFlowDescription :: "DFDFlow \<Rightarrow> string" where
  "buildFlowDescription flow =
     (let parts =
            (if truthy (fl_protocol flow) then [''Protocol: '' @ str_of (fl_protocol flow)] else [])
          @ (if fl_isEncrypted flow = Val True then [''Encrypted''] else [])
          @ (if fl_isPublicNetwork flow = Val True then [''Public Network''] else [])
      in if parts = [] then ''Data flow between components'' else join '' | '' parts)"

definition convertElementToCell :: "DFDElement \<Rightarrow> cell" where
  "convertElementToCell element =
     \<lparr> c_id = el_id element,
       c_shape = (if el_type element \<in> {Val ''actor'', Val ''process'', Val ''store''}
                  then el_type element else Val ''process''),
       c_zIndex = Val (Fin 1),
       c_position = Val \<lparr> pt_x = el_x element, pt_y = el_y element \<rparr>,
       c_size = Val \<lparr> sz_width = Val (Fin 160), sz_height = Val (Fin 80) \<rparr>,
       c_data = Val \<lparr> cd_type = (if el_type element = Val ''actor'' then Val ''tm.Actor''
                                  else if el_type element = Val ''store'' then Val ''tm.Store''
                                  else Val ''tm.Process''),
                       cd_name = el_name element,
                       cd_description = Val (buildDescription element),
                       cd_isEncrypted = Val False,
                       cd_isPublicNetwork = Val False,
                       cd_protocol = Val [] \<rparr>,
       c_source = Undefined,
       c_target = Undefined,
       c_stroke = Val (getStrokeColor element),
       c_label = el_name element \<rparr>"

definition convertFlowToCell :: "DFDFlow \<Rightarrow> cell" where
  "convertFlowToCell flow =
     \<lparr> c_id = fl_id flow,
       c_shape = Val ''flow'',
       c_zIndex = Val (Fin 10),
       c_position = Undefined,
       c_size = Undefined,
       c_data = Val \<lparr> cd_type = Val ''tm.Flow'',
                       cd_name = (if truthy (fl_protocol flow) then fl_protocol flow
                                  else Val ''Data Flow''),
                       cd_description = Val (buildFlowDescription flow),
                       cd_isEncrypted = fl_isEncrypted flow,
                       cd_isPublicNetwork = fl_isPublicNetwork flow,
                       cd_protocol = fl_protocol flow \<rparr>,
       c_source = Val \<lparr> ep_cell = Undefined, ep_id = fl_sourceId flow \<rparr>,
       c_target = Val \<lparr> ep_cell = Undefined, ep_id = fl_targetId flow \<rparr>,
       c_stroke = Val (if fl_isEncrypted flow = Val True then ''#2E7D32'' else ''#333333''),
       c_label = (if truthy (fl_protocol flow) then fl_protocol flow else Val []) \<rparr>"

definition buildDiagram :: "DFDIR \<Rightarrow> string js \<Rightarrow> string js \<Rightarrow> diagram" where
  "buildDiagram dfdir name description =
     \<lparr> g_title = name,
       g_placeholder = description,
       g_cells = map convertElementToCell (d_elements dfdir)
                 @ map convertFlowToCell (d_flows dfdir) \<rparr>"

text \<open>\<open>convert\<close>: the thrown error's message is \<open>Inl\<close>.\<close>

definition convert :: "DFDIR \<Rightarrow> options \<Rightarrow> string + threat_model" where
  "convert dfdir opts =
     (let diagramName = dflt (Val ''Imported Topology'') (o_diagramName opts);
          diagramDescription = dflt (Val ''Auto-generated from OTP document'') (o_diagramDescription opts);
          projectName = dflt (Val ''T2T Import'') (o_projectName opts);
          projectOwner = dflt (Val ''Unknown'') (o_projectOwner opts);
          dfdirResult = validateDFDIR dfdir
      in if \<not> r_valid dfdirResult
         then Inl (''DFDIR validation failed: '' @ join '', '' (map i_message (r_errors dfdirResult)))
         else Inr \<lparr> t_version = ''2.5.0'',
                    t_title = projectName,
                    t_owner = projectOwner,
                    t_diagrams = [buildDiagram dfdir diagramName diagramDescription] \<rparr>)"

section \<open>Sample data\<close>

definition mk_element :: "string \<Rightarrow> string \<Rightarrow> string \<Rightarrow> DFDElement" where
  "mk_element i n t =
     DFDElement_new \<lparr> el_id = Val i, el_name = Val n, el_type = Val t, el_x = Undefined,
       el_y = Undefined, el_ipAddress = Undefined, el_services = Undefined,
       el_metadata = Undefined, el_confidence = Undefined, el_source = Undefined \<rparr>"

definition mk_flow :: "string \<Rightarrow> string \<Rightarrow> string \<Rightarrow> DFDFlow" where
  "mk_flow i s t =
     DFDFlow_new \<lparr> fl_id = Val i, fl_sourceId = Val s, fl_targetId = Val t,
       fl_protocol = Undefined, fl_isEncrypted = Undefined, fl_isPublicNetwork = Undefined,
       fl_metadata = Undefined, fl_confidence = Undefined, fl_source = Undefined \<rparr>"

definition mk_dfdir :: "DFDElement list \<Rightarrow> DFDFlow list \<Rightarrow> DFDIR" where
  "mk_dfdir es fs = \<lparr> d_name = Val ''net'', d_elements = es, d_flows = fs, d_metadata = Null \<rparr>"

definition no_options :: options where
  "no_options = \<lparr> o_diagramName = Undefined, o_diagramDescription = Undefined,
       o_projectName = Undefined, o_projectOwner = Undefined, o_includeMetadata = Undefined \<rparr>"

section \<open>The layout engine (layout/t2tLayout.js)\<close>

text \<open>
  A node as the layout engine reads and writes it, and a connection. The engine
  mutates the node objects of the array it is given; a node object is identified here by
  its index in that array, so tiers and levels are lists of indices.
  Coordinates are computed over the reals; the grid unit is an integer.
\<close>

record lnode =
  n_id :: "string js"
  n_type :: "string js"
  n_x :: "jsnum js"
  n_y :: "jsnum js"

record lconn =
  k_sourceId :: "string js"
  k_targetId :: "string js"

record T2TLayout =
  gridSnap :: int
  canvasWidth :: real
  canvasHeight :: real

definition T2TLayout_new :: "int \<Rightarrow> T2TLayout" where
  "T2TLayout_new g = \<lparr> gridSnap = g, canvasWidth = 2000, canvasHeight = 1500 \<rparr>"

datatype layout_error = UnknownLayoutType string | TypeError

text \<open>\<open>Math.round\<close> rounds halves up. Dividing by a grid unit of zero gives an infinity
  or \<open>NaN\<close>, and the product with zero is \<open>NaN\<close>.\<close>

definition math_round :: "real \<Rightarrow> int" where
  "math_round v = \<lfloor>v + 1 / 2\<rfloor>"

definition snapToGrid :: "T2TLayout \<Rightarrow> real \<Rightarrow> jsnum" where
  "snapToGrid L v =
     (if gridSnap L = 0 then NaN
      else Fin (of_int (math_round (v / of_int (gridSnap L)) * gridSnap L)))"

text \<open>\<open>forEach\<close> over a tier: each node gets the snapped current x and the snapped y.\<close>

fun place :: "T2TLayout \<Rightarrow> real \<Rightarrow> real \<Rightarrow> real \<Rightarrow> nat list \<Rightarrow> lnode list \<Rightarrow> lnode list" where
  "place L currentX y spacing [] nodes = nodes"
| "place L currentX y spacing (i # rest) nodes =
     place L (currentX + spacing) y spacing rest
       (nodes[i := (nodes ! i)\<lparr>n_x := Val (snapToGrid L currentX), n_y := Val (snapToGrid L y)\<rparr>])"

definition positionTier :: "T2TLayout \<Rightarrow> nat list \<Rightarrow> real \<Rightarrow> real \<Rightarrow> real \<Rightarrow> lnode list \<Rightarrow> lnode list" where
  "positionTier L tierNodes startX y spacing nodes =
     (if tierNodes = [] then nodes
      else let totalWidth = (real (length tierNodes) - 1) * spacing;
               centerOffset = (canvasWidth L - totalWidth) / 2;
               currentX = max startX centerOffset
           in place L currentX y spacing tierNodes nodes)"

text \<open>
  \<open>tiers[node.type]\<close> reads a property of the object literal \<open>{actor, process, store}\<close>.
  For a type that names a property inherited from \<open>Object.prototype\<close> the value is
  truthy and has no \<open>push\<close>: the call throws a TypeError.
\<close>

definition prototype_names :: "string list" where
  "prototype_names = [''constructor'', ''toString'', ''toLocaleString'', ''valueOf'',
     ''hasOwnProperty'', ''isPrototypeOf'', ''propertyIsEnumerable'', ''__proto__'',
     ''__defineGetter__'', ''__defineSetter__'', ''__lookupGetter__'', ''__lookupSetter__'']"

definition tier_of :: "lnode \<Rightarrow> layout_error + string" where
  "tier_of node =
     (case n_type node of
        Val t \<Rightarrow> (if t \<in> {''actor'', ''process'', ''store''} then Inr t
                  else if t \<in> set prototype_names then Inl TypeError
                  else Inr ''process'')
      | _ \<Rightarrow> Inr ''process'')"

definition tier_members :: "lnode list \<Rightarrow> string \<Rightarrow> nat list" where
  "tier_members nodes t = filter (\<lambda>i. tier_of (nodes ! i) = Inr t) [0 ..< length nodes]"

definition calculateTieredLayout :: "T2TLayout \<Rightarrow> lnode list \<Rightarrow> layout_error + lnode list" where
  "calculateTieredLayout L nodes =
     (if \<exists>node \<in> set nodes. tier_of node = Inl TypeError then Inl TypeError
      else let tierSpacing = 400;
               nodeSpacing = 300;
               currentY = 100;
               positioned = positionTier L (tier_members nodes ''actor'') 100 currentY nodeSpacing nodes;
               currentY = currentY + tierSpacing;
               positioned = positionTier L (tier_members nodes ''process'') 100 currentY nodeSpacing positioned;
               currentY = currentY + tierSpacing
           in Inr (positionTier L (tier_members nodes ''store'') 100 currentY nodeSpacing positioned))"

text \<open>\<open>Math.cos\<close>, \<open>Math.sin\<close> and \<open>Math.PI\<close> are the platform's approximations; they
  are a parameter of the radial layout.\<close>

record math_lib =
  math_cos :: "real \<Rightarrow> real"
  math_sin :: "real \<Rightarrow> real"
  math_PI :: real

definition calculateRadialLayout :: "math_lib \<Rightarrow> T2TLayout \<Rightarrow> lnode list \<Rightarrow> lnode list" where
  "calculateRadialLayout M L nodes =
     (if nodes = [] then nodes
      else let centerX = canvasWidth L / 2;
               centerY = canvasHeight L / 2;
               radius = min centerX centerY - 200
           in map (\<lambda>(index, node).
                     let angle = (2 * math_PI M * real index) / real (length nodes);
                         x = centerX + radius * math_cos M angle;
                         y = centerY + radius * math_sin M angle
                     in node\<lparr>n_x := Val (snapToGrid L x), n_y := Val (snapToGrid L y)\<rparr>)
                  (zip [0 ..< length nodes] nodes))"

text \<open>\<open>nodeMap.get(id)\<close>: the map is built from the array in order, so a later node with
  the same id replaces an earlier one.\<close>

definition nodeMap_get :: "lnode list \<Rightarrow> string js \<Rightarrow> nat option" where
  "nodeMap_get nodes i = find (\<lambda>j. n_id (nodes ! j) = i) (rev [0 ..< length nodes])"

definition next_targets :: "lnode list \<Rightarrow> lconn list \<Rightarrow> string js list \<Rightarrow> nat \<Rightarrow> nat list" where
  "next_targets nodes connections visited i =
     concat (map (\<lambda>conn. case nodeMap_get nodes (k_targetId conn) of
                             Some j \<Rightarrow> (if n_id (nodes ! j) \<notin> set visited then [j] else [])
                           | None \<Rightarrow> [])
                 (filter (\<lambda>conn. k_sourceId conn = n_id (nodes ! i)) connections))"

text \<open>The \<open>while\<close> loop of \<open>buildHierarchyLevels\<close>, on the levels built so far, the set of
  visited ids and the current level.\<close>

function bfs_levels ::
  "lnode list \<Rightarrow> lconn list \<Rightarrow> nat list list \<Rightarrow> string js list \<Rightarrow> nat list
     \<Rightarrow> nat list list \<times> string js list" where
  "bfs_levels nodes connections levels visited currentLevel =
     (if currentLevel = [] then (levels, visited)
      else let levelNodes = filter (\<lambda>i. n_id (nodes ! i) \<notin> set visited) currentLevel;
               levels' = (if levelNodes \<noteq> [] then levels @ [levelNodes] else levels);
               visited' = (if levelNodes \<noteq> [] then visited @ map (\<lambda>i. n_id (nodes ! i)) levelNodes
                           else visited);
               nextLevel = concat (map (next_targets nodes connections visited') currentLevel)
           in if 20 < length levels' then (levels', visited')
              else bfs_levels nodes connections levels' visited' nextLevel)"
  by pat_completeness auto

termination
proof (relation "measure (\<lambda>(nodes, connections, levels, visited, currentLevel).
    3 * card ((n_id ` set nodes \<union> (\<lambda>i. n_id (nodes ! i)) ` set currentLevel) - set visited)
    + (if currentLevel = [] then 0
       else if \<forall>i \<in> set currentLevel. n_id (nodes ! i) \<in> set visited then 2 else 1))",
    goal_cases)
  case 1
  then show ?case by simp
next
  case (2 nodes connections levels visited currentLevel levelNodes levels' visited' nextLevel)
  let ?idN = "n_id ` set nodes"
  let ?idC = "(\<lambda>i. n_id (nodes ! i)) ` set currentLevel"
  have find_mem: "x \<in> set xs" if "find P xs = Some x" for P and xs :: "nat list" and x
    using that by (induction xs) (auto split: if_splits)
  have nm: "j < length nodes" if "nodeMap_get nodes t = Some j" for t j
    using find_mem [OF that [unfolded nodeMap_get_def]] by simp
  have nt: "j < length nodes \<and> n_id (nodes ! j) \<notin> set v"
    if "j \<in> set (next_targets nodes connections v i)" for v i j
    using that unfolding next_targets_def
    by (auto split: option.splits if_splits intro: nm [OF sym])
  have next_ok: "j < length nodes \<and> n_id (nodes ! j) \<notin> set visited'" if "j \<in> set nextLevel" for j
    using that nt unfolding 2(5) by auto
  have next_sub: "(\<lambda>i. n_id (nodes ! i)) ` set nextLevel \<subseteq> ?idN"
    using next_ok by (auto simp: image_iff)
  have U': "(?idN \<union> (\<lambda>i. n_id (nodes ! i)) ` set nextLevel) - set visited' = ?idN - set visited'"
    using next_sub by blast
  have fin: "finite ((?idN \<union> ?idC) - set visited)" by simp
  have flag: "(if nextLevel = [] then 0
               else if \<forall>i \<in> set nextLevel. n_id (nodes ! i) \<in> set visited' then 2 else 1) \<le> (1::nat)"
    using next_ok by (cases nextLevel) auto
  show ?case
  proof (cases "levelNodes = []")
    case True
    then have allv: "\<forall>i \<in> set currentLevel. n_id (nodes ! i) \<in> set visited"
      unfolding 2(2) by (auto simp: filter_empty_conv)
    have v: "visited' = visited" using True 2(4) by simp
    have "(?idN \<union> ?idC) - set visited = ?idN - set visited" using allv by blast
    then have c: "card ((?idN \<union> (\<lambda>i. n_id (nodes ! i)) ` set nextLevel) - set visited')
                  = card ((?idN \<union> ?idC) - set visited)"
      using U' v by simp
    show ?thesis using c flag allv 2(1) by simp
  next
    case False
    then obtain i where i: "i \<in> set currentLevel" "n_id (nodes ! i) \<notin> set visited"
      unfolding 2(2) by (auto simp: filter_empty_conv)
    have v: "set visited' = set visited \<union> (\<lambda>i. n_id (nodes ! i)) ` set levelNodes"
      using False 2(4) by simp
    have "i \<in> set levelNodes" using i unfolding 2(2) by simp
    then have inV: "n_id (nodes ! i) \<in> set visited'" using v by blast
    have "?idN - set visited' \<subset> (?idN \<union> ?idC) - set visited"
    proof
      show "?idN - set visited' \<subseteq> (?idN \<union> ?idC) - set visited" using v by blast
      have "n_id (nodes ! i) \<in> (?idN \<union> ?idC) - set visited" using i by blast
      moreover have "n_id (nodes ! i) \<notin> ?idN - set visited'" using inV by blast
      ultimately show "?idN - set visited' \<noteq> (?idN \<union> ?idC) - set visited" by blast
    qed
    then have "card (?idN - set visited') < card ((?idN \<union> ?idC) - set visited)"
      using fin by (rule psubset_card_mono [rotated])
    then have c: "card ((?idN \<union> (\<lambda>i. n_id (nodes ! i)) ` set nextLevel) - set visited')
                  < card ((?idN \<union> ?idC) - set visited)"
      using U' by simp
    have notall: "\<not> (\<forall>i \<in> set currentLevel. n_id (nodes ! i) \<in> set visited)" using i by blast
    show ?thesis using c notall flag 2(1) by (simp split: if_splits)
  qed
qed

declare bfs_levels.simps [simp del]

definition buildHierarchyLevels :: "lnode list \<Rightarrow> lconn list \<Rightarrow> nat list \<Rightarrow> nat list list" where
  "buildHierarchyLevels nodes connections rootNodes =
     (let (levels, visited) = bfs_levels nodes connections [] [] rootNodes;
          unvisited = filter (\<lambda>i. n_id (nodes ! i) \<notin> set visited) [0 ..< length nodes]
      in if unvisited \<noteq> [] then levels @ [unvisited] else levels)"

text \<open>\<open>levels.forEach\<close>, with the running y.\<close>

fun position_levels :: "T2TLayout \<Rightarrow> real \<Rightarrow> nat list list \<Rightarrow> lnode list \<Rightarrow> lnode list" where
  "position_levels L currentY [] nodes = nodes"
| "position_levels L currentY (levelNodes # rest) nodes =
     position_levels L (currentY + 400) rest (positionTier L levelNodes 100 currentY 300 nodes)"

definition calculateHierarchicalLayout ::
  "T2TLayout \<Rightarrow> lnode list \<Rightarrow> lconn list \<Rightarrow> layout_error + lnode list" where
  "calculateHierarchicalLayout L nodes connections =
     (let hasIncoming = map k_targetId connections;
          rootNodes = filter (\<lambda>i. n_id (nodes ! i) \<notin> set hasIncoming) [0 ..< length nodes]
      in if rootNodes = [] then calculateTieredLayout L nodes
         else Inr (position_levels L 100 (buildHierarchyLevels nodes connections rootNodes) nodes))"

definition calculateLayout ::
  "math_lib \<Rightarrow> T2TLayout \<Rightarrow> lnode list \<Rightarrow> lconn list \<Rightarrow> string \<Rightarrow> layout_error + lnode list" where
  "calculateLayout M L nodes connections layoutType =
     (if layoutType = ''tiered'' then calculateTieredLayout L nodes
      else if layoutType = ''radial'' then Inr (calculateRadialLayout M L nodes)
      else if layoutType = ''hierarchical'' then calculateHierarchicalLayout L nodes connections
      else Inl (UnknownLayoutType layoutType))"

text \<open>\<open>v % g == 0\<close> for a coordinate \<open>v\<close>: \<open>null\<close> converts to 0; \<open>undefined\<close>, \<open>NaN\<close>
  and the infinities give \<open>NaN\<close>, as does every remainder by zero.\<close>

definition on_grid :: "int \<Rightarrow> jsnum js \<Rightarrow> bool" where
  "on_grid g v =
     (g \<noteq> 0 \<and>
      (case v of
         Val (Fin x) \<Rightarrow> of_int \<lfloor>x / of_int g\<rfloor> * of_int g = x
       | Null \<Rightarrow> True
       | _ \<Rightarrow> False))"


definition mk_node :: "string \<Rightarrow> string \<Rightarrow> lnode" where
  "mk_node i t = \<lparr> n_id = Val i, n_type = Val t, n_x = Undefined, n_y = Undefined \<rparr>"

text \<open>A crude platform for running examples: the first terms of the two series.\<close>

definition crude_math :: math_lib where
  "crude_math = \<lparr> math_cos = (\<lambda>a. 1 - a * a / 2), math_sin = (\<lambda>a. a - a * a * a / 6),
                    math_PI = 355 / 113 \<rparr>"

section \<open>The pattern library (parser/t2tPatterns.js)\<close>

subsection \<open>Regular expressions tested with the global flag\<close>

text \<open>
  The patterns that the library applies with \<open>RegExp.prototype.test\<close> all have the shape
  \<open>\b(alt|...|alt)\b\<close> with the flags \<open>gi\<close>, where an alternative is a sequence of
  literal characters, \<open>\s*\<close> and a negative lookahead for one character. A regular
  expression object with the global flag keeps \<open>lastIndex\<close> between calls; the objects
  are properties of the module-level constant \<open>T2TPatterns\<close>, so this state outlives
  every extractor, and it is threaded through the model.
\<close>

datatype atom = Lit char | Spaces | NotFollowedBy char

definition char_in :: "char \<Rightarrow> char \<Rightarrow> char \<Rightarrow> bool" where
  "char_in lo hi c = ((of_char lo :: nat) \<le> of_char c \<and> (of_char c :: nat) \<le> of_char hi)"

definition lower_char :: "char \<Rightarrow> char" where
  "lower_char c = (if char_in CHR ''A'' CHR ''Z'' c then char_of (of_char c + (32::nat)) else c)"

definition toLowerCase :: "string \<Rightarrow> string" where
  "toLowerCase s = map lower_char s"

definition upper_char :: "char \<Rightarrow> char" where
  "upper_char c = (if char_in CHR ''a'' CHR ''z'' c then char_of (of_char c - (32::nat)) else c)"

definition toUpperCase :: "string \<Rightarrow> string" where
  "toUpperCase s = map upper_char s"

definition is_word_char :: "char \<Rightarrow> bool" where
  "is_word_char c =
     (char_in CHR ''a'' CHR ''z'' c \<or> char_in CHR ''A'' CHR ''Z'' c
      \<or> char_in CHR ''0'' CHR ''9'' c \<or> c = CHR ''_'')"

text \<open>The strings left after matching the atoms at the start of a string, in the order
  in which backtracking tries them (\<open>\s*\<close> is greedy).\<close>

fun match_atoms :: "atom list \<Rightarrow> string \<Rightarrow> string list" where
  "match_atoms [] s = [s]"
| "match_atoms (Lit c # rest) s =
     (case s of
        [] \<Rightarrow> []
      | d # ds \<Rightarrow> if lower_char d = lower_char c then match_atoms rest ds else [])"
| "match_atoms (Spaces # rest) s =
     concat (map (\<lambda>k. match_atoms rest (drop k s))
                 (rev [0 ..< Suc (length (takeWhile is_ws s))]))"
| "match_atoms (NotFollowedBy c # rest) s =
     (case s of
        [] \<Rightarrow> match_atoms rest s
      | d # ds \<Rightarrow> if lower_char d = lower_char c then [] else match_atoms rest s)"

definition word_boundary :: "char option \<Rightarrow> char option \<Rightarrow> bool" where
  "word_boundary prev after =
     ((case prev of Some c \<Rightarrow> is_word_char c | None \<Rightarrow> False)
      \<noteq> (case after of Some c \<Rightarrow> is_word_char c | None \<Rightarrow> False))"

definition char_before_end :: "char option \<Rightarrow> string \<Rightarrow> string \<Rightarrow> char option" where
  "char_before_end prev s rest =
     (let consumed = length s - length rest
      in if consumed = 0 then prev else Some (s ! (consumed - 1)))"

definition first_char :: "string \<Rightarrow> char option" where
  "first_char s = (case s of [] \<Rightarrow> None | c # _ \<Rightarrow> Some c)"

text \<open>A match of \<open>\b(alt|...|alt)\b\<close> that starts at the start of \<open>s\<close>, which
  \<open>prev\<close> precedes: the string left after it.\<close>

definition match_here :: "atom list list \<Rightarrow> char option \<Rightarrow> string \<Rightarrow> string option" where
  "match_here alts prev s =
     (if \<not> word_boundary prev (first_char s) then None
      else find (\<lambda>rest. word_boundary (char_before_end prev s rest) (first_char rest))
                (concat (map (\<lambda>alt. match_atoms alt s) alts)))"

text \<open>The leftmost match at or after the start of \<open>s\<close>: the length of what is left after it.\<close>

fun search :: "atom list list \<Rightarrow> char option \<Rightarrow> string \<Rightarrow> nat option" where
  "search alts prev [] =
     (case match_here alts prev [] of Some rest \<Rightarrow> Some (length rest) | None \<Rightarrow> None)"
| "search alts prev (c # cs) =
     (case match_here alts prev (c # cs) of
        Some rest \<Rightarrow> Some (length rest)
      | None \<Rightarrow> search alts (Some c) cs)"

text \<open>\<open>pattern.test(str)\<close> for a pattern with the global flag and the given
  \<open>lastIndex\<close>: the result and the new \<open>lastIndex\<close>.\<close>

definition regex_test :: "atom list list \<Rightarrow> nat \<Rightarrow> string \<Rightarrow> bool \<times> nat" where
  "regex_test alts lastIndex str =
     (if length str < lastIndex then (False, 0)
      else case search alts (if lastIndex = 0 then None else Some (str ! (lastIndex - 1)))
                       (drop lastIndex str) of
             None \<Rightarrow> (False, 0)
           | Some left \<Rightarrow> (True, length str - left))"

definition lit :: "string \<Rightarrow> atom list" where
  "lit s = map Lit s"

definition spaced :: "string \<Rightarrow> string \<Rightarrow> atom list" where
  "spaced a b = lit a @ [Spaces] @ lit b"

definition rolePatterns_attacker :: "atom list list" where
  "rolePatterns_attacker = [lit ''attacker'', spaced ''red'' ''team'', lit ''offensive'',
     lit ''kali'', lit ''penetration'', lit ''pentest'']"

definition rolePatterns_database :: "atom list list" where
  "rolePatterns_database = [lit ''database'', lit ''db'', lit ''mysql'', lit ''postgresql'',
     lit ''mongo'']"

definition storage_pattern :: "atom list list" where
  "storage_pattern = [lit ''storage'', lit ''nas'', lit ''san'', lit ''backup'']"

definition servicePatterns :: "(string \<times> atom list list) list" where
  "servicePatterns =
     [(''web'', [lit ''HTTP'', lit ''HTTPS'', lit ''Apache'', lit ''Nginx'', lit ''IIS'',
                 spaced ''port'' ''80'', spaced ''port'' ''443'', spaced ''web'' ''server'']),
      (''database'', [lit ''MySQL'', lit ''PostgreSQL'', lit ''MongoDB'', lit ''MSSQL'',
                 lit ''Oracle'', spaced ''port'' ''3306'', spaced ''port'' ''5432'',
                 spaced ''port'' ''1433'', lit ''database'', lit ''db'']),
      (''ssh'', [lit ''SSH'', spaced ''port'' ''22'', lit ''openssh'']),
      (''rdp'', [lit ''RDP'', spaced ''remote'' ''desktop'', spaced ''port'' ''3389'']),
      (''smb'', [lit ''SMB'', lit ''CIFS'', spaced ''file'' ''sharing'', spaced ''port'' ''445'']),
      (''dns'', [lit ''DNS'', spaced ''port'' ''53'', spaced ''name'' ''resolution'']),
      (''ldap'', [lit ''LDAP'', spaced ''Active'' ''Directory'', lit ''AD'', spaced ''port'' ''389'']),
      (''metasploit'', [lit ''metasploit'', lit ''msfconsole'', lit ''meterpreter'']),
      (''burpsuite'', [lit ''burp'', lit ''burpsuite''])]"

definition protocolPatterns :: "(string \<times> atom list list) list" where
  "protocolPatterns =
     [(''https'', [lit ''HTTPS'', lit ''TLS'', lit ''SSL'', spaced ''port'' ''443'']),
      (''http'', [lit ''HTTP'' @ [NotFollowedBy CHR ''S''], spaced ''port'' ''80'']),
      (''ssh'', [lit ''SSH'', spaced ''port'' ''22'']),
      (''rdp'', [lit ''RDP'', spaced ''port'' ''3389'']),
      (''mysql'', [lit ''MySQL'', spaced ''port'' ''3306'']),
      (''postgresql'', [lit ''PostgreSQL'', spaced ''port'' ''5432'']),
      (''smb'', [lit ''SMB'', spaced ''port'' ''445'']),
      (''ldap'', [lit ''LDAP'', spaced ''port'' ''389'']),
      (''dns'', [lit ''DNS'', spaced ''port'' ''53''])]"

text \<open>The \<open>lastIndex\<close> of each of these objects.\<close>

record regex_state =
  li_attacker :: nat
  li_database :: nat
  li_service :: "nat list"
  li_protocol :: "nat list"

definition fresh_regex_state :: regex_state where
  "fresh_regex_state = \<lparr> li_attacker = 0, li_database = 0, li_service = replicate 9 0,
                           li_protocol = replicate 9 0 \<rparr>"

subsection \<open>The helpers\<close>

definition is_digit :: "char \<Rightarrow> bool" where
  "is_digit c = char_in CHR ''0'' CHR ''9'' c"

fun split_dots :: "string \<Rightarrow> string list" where
  "split_dots [] = [[]]"
| "split_dots (c # cs) =
     (if c = CHR ''.'' then [] # split_dots cs
      else (case split_dots cs of p # ps \<Rightarrow> (c # p) # ps | [] \<Rightarrow> [[c]]))"

text \<open>One octet of the pattern of \<open>isValidIPv4\<close>:
  \<open>25[0-5]|2[0-4][0-9]|[01]?[0-9][0-9]?\<close>.\<close>

definition valid_octet :: "string \<Rightarrow> bool" where
  "valid_octet s =
     (list_all is_digit s \<and>
      (case s of
         [a] \<Rightarrow> True
       | [a, b] \<Rightarrow> True
       | [a, b, c] \<Rightarrow> a = CHR ''0'' \<or> a = CHR ''1''
                      \<or> (a = CHR ''2'' \<and> (char_in CHR ''0'' CHR ''4'' b
                                              \<or> (b = CHR ''5'' \<and> char_in CHR ''0'' CHR ''5'' c)))
       | _ \<Rightarrow> False))"

definition isValidIPv4 :: "string \<Rightarrow> bool" where
  "isValidIPv4 ip = (let parts = split_dots ip in length parts = 4 \<and> list_all valid_octet parts)"

text \<open>\<open>hay.indexOf(needle)\<close>, with \<open>None\<close> for \<open>-1\<close>.\<close>

definition indexOf :: "string \<Rightarrow> string \<Rightarrow> nat option" where
  "indexOf hay needle =
     find (\<lambda>i. take (length needle) (drop i hay) = needle) [0 ..< Suc (length hay)]"

definition substring :: "string \<Rightarrow> nat \<Rightarrow> nat \<Rightarrow> string" where
  "substring s start end = take (end - start) (drop start s)"

definition getContextWindow :: "string \<Rightarrow> string \<Rightarrow> string" where
  "getContextWindow text keyword =
     (case indexOf (toLowerCase text) (toLowerCase keyword) of
        None \<Rightarrow> []
      | Some index \<Rightarrow>
          (let start = index - 200;
               end = min (length text) (index + length keyword + 200)
           in substring text start end))"

definition classifyNodeType :: "string \<Rightarrow> string \<Rightarrow> string \<Rightarrow> regex_state \<Rightarrow> string \<times> regex_state" where
  "classifyNodeType name role context rx =
     (let combined = toLowerCase (name @ '' '' @ role @ '' '' @ context);
          (isAttacker, li) = regex_test rolePatterns_attacker (li_attacker rx) combined;
          rx = rx\<lparr>li_attacker := li\<rparr>
      in if isAttacker then (''actor'', rx)
         else let (isDatabase, li) = regex_test rolePatterns_database (li_database rx) combined;
                  rx = rx\<lparr>li_database := li\<rparr>
              in if isDatabase then (''store'', rx)
                 else if fst (regex_test storage_pattern 0 combined) then (''store'', rx)
                 else (''process'', rx))"

text \<open>\<open>forEach\<close> over the entries of a pattern table, testing every pattern: the names
  whose pattern matched, and the new \<open>lastIndex\<close> values.\<close>

fun test_each :: "(string \<times> atom list list) list \<Rightarrow> nat list \<Rightarrow> string \<Rightarrow> string list \<times> nat list" where
  "test_each ((name, alts) # patterns) (li # lis) str =
     (let (matched, li') = regex_test alts li str;
          (names, lis') = test_each patterns lis str
      in ((if matched then [name] else []) @ names, li' # lis'))"
| "test_each patterns lis str = ([], lis)"

text \<open>A \<open>for\<close> loop that returns at the first pattern that matches.\<close>

fun test_first :: "(string \<times> atom list list) list \<Rightarrow> nat list \<Rightarrow> string \<Rightarrow> string option \<times> nat list" where
  "test_first ((name, alts) # patterns) (li # lis) str =
     (let (matched, li') = regex_test alts li str
      in if matched then (Some name, li' # lis)
         else (let (found, lis') = test_first patterns lis str in (found, li' # lis')))"
| "test_first patterns lis str = (None, lis)"

text \<open>Insertion order of a \<open>Set\<close>: the first occurrence of each value.\<close>

definition dedup :: "'a list \<Rightarrow> 'a list" where
  "dedup xs = fold (\<lambda>x acc. if x \<in> set acc then acc else acc @ [x]) xs []"

definition extractServices :: "(string \<Rightarrow> string list) \<Rightarrow> string \<Rightarrow> regex_state \<Rightarrow> string list \<times> regex_state" where
  "extractServices scan_ports servicesText rx =
     (let (names, lis) = test_each servicePatterns (li_service rx) servicesText;
          ports = map (\<lambda>n. ''port-'' @ n) (scan_ports servicesText)
      in (dedup (names @ ports), rx\<lparr>li_service := lis\<rparr>))"

definition detectProtocol :: "string \<Rightarrow> regex_state \<Rightarrow> string \<times> regex_state" where
  "detectProtocol context rx =
     (let (found, lis) = test_first protocolPatterns (li_protocol rx) context
      in (case found of Some protocol \<Rightarrow> toUpperCase protocol | None \<Rightarrow> ''TCP'',
          rx\<lparr>li_protocol := lis\<rparr>))"

definition isEncryptedProtocol :: "string \<Rightarrow> bool" where
  "isEncryptedProtocol protocol =
     (toUpperCase protocol \<in> set [''HTTPS'', ''SSH'', ''LDAPS'', ''SMTPS'', ''FTPS'', ''TLS'', ''SSL''])"

section \<open>The entity extractor (parser/entityExtractor.js)\<close>

text \<open>
  The scans that use \<open>String.prototype.matchAll\<close>, or \<open>test\<close> on a pattern without the
  global flag, keep no state: each is a function of the text. The regular expression
  engine applied to those patterns of the library is a parameter of the extractor:
  \<^item> \<open>scan_tableRow\<close>: the four groups of each match of \<open>nodePatterns.tableRow\<close>;
  \<^item> \<open>scan_inline\<close>: the two groups of each match of \<open>nodePatterns.inline\<close>;
  \<^item> \<open>scan_osPatterns\<close>: for each entry of \<open>OS_PATTERNS\<close> in order and each of its
    matches, the first group with the entry's hint and role;
  \<^item> \<open>scan_instrumentation\<close>: name and role of each entry of
    \<open>INSTRUMENTATION_PATTERNS\<close> whose pattern occurs in the text, in order;
  \<^item> \<open>scan_systemNames\<close>: each match of \<open>nodePatterns.systemNames\<close>;
  \<^item> \<open>scan_connection\<close>: for the connection pattern of the given index, the position
    and the two groups of each match (the second is absent for the one-group patterns);
  \<^item> \<open>scan_ports\<close>: the digits of each match of \<open>port\s*(\d+)\<close>.
  \<open>uuidv4\<close> is a supply of strings, read at a counter.
\<close>

record scanner =
  scan_tableRow :: "string \<Rightarrow> (string \<times> string \<times> string \<times> string) list"
  scan_inline :: "string \<Rightarrow> (string \<times> string) list"
  scan_osPatterns :: "string \<Rightarrow> (string \<times> string \<times> string) list"
  scan_instrumentation :: "string \<Rightarrow> (string \<times> string) list"
  scan_systemNames :: "string \<Rightarrow> string list"
  scan_connection :: "nat \<Rightarrow> string \<Rightarrow> (nat \<times> string \<times> string js) list"
  scan_ports :: "string \<Rightarrow> string list"

record xmeta =
  m_role :: "string js"
  m_extractedFrom :: "string js"
  m_rawServices :: "string js"
  m_templateHint :: "string js"
  m_defaultRole :: "string js"
  m_visionConfirmed :: "bool js"

record xnode =
  x_id :: "string js"
  x_name :: string
  x_ipAddress :: "string js"
  x_type :: "string js"
  x_services :: "string list"
  x_metadata :: xmeta
  x_confidence :: real
  x_source :: string

record xconn =
  q_id :: "string js"
  q_sourceId :: "string js"
  q_targetId :: "string js"
  q_protocol :: "string js"
  q_isEncrypted :: "bool js"
  q_isPublicNetwork :: "bool js"
  q_sourceNode :: "string js"
  q_targetNode :: "string js"
  q_extractedFrom :: "string js"
  q_confidence :: real
  q_source :: string

record vision =
  v_nodes :: "xnode list js"
  v_connections :: "xconn list js"

text \<open>The extractor's fields, the uuid counter and the state of the pattern objects.\<close>

record xstate =
  s_nodes :: "(string \<times> xnode) list"
  s_connections :: "xconn list"
  s_uuid :: nat
  s_rx :: regex_state

definition no_meta :: xmeta where
  "no_meta = \<lparr> m_role = Undefined, m_extractedFrom = Undefined, m_rawServices = Undefined,
               m_templateHint = Undefined, m_defaultRole = Undefined,
               m_visionConfirmed = Undefined \<rparr>"

text \<open>\<open>{ ...a, ...b }\<close> on metadata objects: a property of \<open>b\<close> replaces that of \<open>a\<close>.\<close>

definition over :: "'a js \<Rightarrow> 'a js \<Rightarrow> 'a js" where
  "over a b = (case b of Undefined \<Rightarrow> a | _ \<Rightarrow> b)"

definition spread_meta :: "xmeta \<Rightarrow> xmeta \<Rightarrow> xmeta" where
  "spread_meta a b =
     \<lparr> m_role = over (m_role a) (m_role b),
       m_extractedFrom = over (m_extractedFrom a) (m_extractedFrom b),
       m_rawServices = over (m_rawServices a) (m_rawServices b),
       m_templateHint = over (m_templateHint a) (m_templateHint b),
       m_defaultRole = over (m_defaultRole a) (m_defaultRole b),
       m_visionConfirmed = over (m_visionConfirmed a) (m_visionConfirmed b) \<rparr>"

definition getOrCreateNodeId :: "(nat \<Rightarrow> string) \<Rightarrow> string \<Rightarrow> xstate \<Rightarrow> string js \<times> xstate" where
  "getOrCreateNodeId uuid nodeName st =
     (case map_of (s_nodes st) nodeName of
        Some existing \<Rightarrow> (x_id existing, st)
      | None \<Rightarrow> (Val (uuid (s_uuid st)), st\<lparr>s_uuid := Suc (s_uuid st)\<rparr>))"

definition addOrUpdateNode :: "xnode \<Rightarrow> xstate \<Rightarrow> xstate" where
  "addOrUpdateNode nodeData st =
     (case map_of (s_nodes st) (x_name nodeData) of
        Some existing \<Rightarrow>
          st\<lparr>s_nodes := map_set (x_name nodeData)
                 (existing\<lparr>x_ipAddress := (if truthy (x_ipAddress nodeData) then x_ipAddress nodeData
                                               else x_ipAddress existing),
                            x_services := dedup (x_services existing @ x_services nodeData),
                            x_metadata := spread_meta (x_metadata existing) (x_metadata nodeData),
                            x_confidence := max (x_confidence existing) (x_confidence nodeData)\<rparr>)
                 (s_nodes st)\<rparr>
      | None \<Rightarrow> st\<lparr>s_nodes := map_set (x_name nodeData) nodeData (s_nodes st)\<rparr>)"

definition classify :: "string \<Rightarrow> string \<Rightarrow> string \<Rightarrow> xstate \<Rightarrow> string \<times> xstate" where
  "classify name role context st =
     (let (t, rx) = classifyNodeType name role context (s_rx st) in (t, st\<lparr>s_rx := rx\<rparr>))"

definition table_row :: "scanner \<Rightarrow> (nat \<Rightarrow> string) \<Rightarrow> string \<Rightarrow> string \<times> string \<times> string \<times> string \<Rightarrow> xstate \<Rightarrow> xstate" where
  "table_row sc uuid text m st =
     (case m of (hostname, ipAddress, role, servicesText) \<Rightarrow>
        if hostname = [] \<or> trim hostname = [] then st
        else let (nodeId, st) = getOrCreateNodeId uuid hostname st;
                 (services, rx) = extractServices (scan_ports sc) servicesText (s_rx st);
                 st = st\<lparr>s_rx := rx\<rparr>;
                 context = getContextWindow text hostname;
                 (t, st) = classify hostname role context st
             in addOrUpdateNode
                  \<lparr> x_id = nodeId, x_name = trim hostname,
                    x_ipAddress = (if trim ipAddress = [] then Null else Val (trim ipAddress)),
                    x_type = Val t, x_services = services,
                    x_metadata = no_meta\<lparr>m_role := Val (trim role),
                                         m_extractedFrom := Val ''table'',
                                         m_rawServices := Val (trim servicesText)\<rparr>,
                    x_confidence = 95, x_source = ''text'' \<rparr> st)"

definition extractFromTableRows :: "scanner \<Rightarrow> (nat \<Rightarrow> string) \<Rightarrow> string \<Rightarrow> xstate \<Rightarrow> xstate" where
  "extractFromTableRows sc uuid text st = fold (table_row sc uuid text) (scan_tableRow sc text) st"

definition inline_match :: "(nat \<Rightarrow> string) \<Rightarrow> string \<Rightarrow> string \<times> string \<Rightarrow> xstate \<Rightarrow> xstate" where
  "inline_match uuid text m st =
     (case m of (nodeName, ipAddress) \<Rightarrow>
        if nodeName = [] \<or> trim nodeName = [] then st
        else if (case map_of (s_nodes st) (trim nodeName) of
                   Some existingNode \<Rightarrow> m_extractedFrom (x_metadata existingNode) = Val ''table''
                 | None \<Rightarrow> False)
        then st
        else let (nodeId, st) = getOrCreateNodeId uuid nodeName st;
                 context = getContextWindow text nodeName;
                 (t, st) = classify nodeName [] context st
             in addOrUpdateNode
                  \<lparr> x_id = nodeId, x_name = trim nodeName, x_ipAddress = Val (trim ipAddress),
                    x_type = Val t, x_services = [],
                    x_metadata = no_meta\<lparr>m_extractedFrom := Val ''inline''\<rparr>,
                    x_confidence = 85, x_source = ''text'' \<rparr> st)"

definition extractFromInlineFormat :: "scanner \<Rightarrow> (nat \<Rightarrow> string) \<Rightarrow> string \<Rightarrow> xstate \<Rightarrow> xstate" where
  "extractFromInlineFormat sc uuid text st = fold (inline_match uuid text) (scan_inline sc text) st"

text \<open>The three loops of \<open>extractFromSystemNames\<close> share the set of names seen, which is
  carried with the state.\<close>

definition os_match :: "(nat \<Rightarrow> string) \<Rightarrow> string \<Rightarrow> string \<times> string \<times> string \<Rightarrow> string list \<times> xstate \<Rightarrow> string list \<times> xstate" where
  "os_match uuid text m acc =
     (case (m, acc) of ((group1, hint, role), (seenNames, st)) \<Rightarrow>
        let nodeName = trim group1;
            normalizedName = toLowerCase nodeName
        in if normalizedName \<in> set seenNames then (seenNames, st)
           else let seenNames = seenNames @ [normalizedName]
                in if map_of (s_nodes st) nodeName \<noteq> None then (seenNames, st)
                   else let (nodeId, st) = getOrCreateNodeId uuid nodeName st;
                            context = getContextWindow text nodeName;
                            (t, st) = classify nodeName role context st
                        in (seenNames,
                            addOrUpdateNode
                              \<lparr> x_id = nodeId, x_name = nodeName, x_ipAddress = Null,
                                x_type = Val t, x_services = [],
                                x_metadata = no_meta\<lparr>m_extractedFrom := Val ''osPattern'',
                                                     m_templateHint := Val hint,
                                                     m_defaultRole := Val role\<rparr>,
                                x_confidence = 75, x_source = ''text'' \<rparr> st))"

definition instrumentation_match :: "(nat \<Rightarrow> string) \<Rightarrow> string \<Rightarrow> string \<times> string \<Rightarrow> string list \<times> xstate \<Rightarrow> string list \<times> xstate" where
  "instrumentation_match uuid text m acc =
     (case (m, acc) of ((name, role), (seenNames, st)) \<Rightarrow>
        if toLowerCase name \<in> set seenNames then (seenNames, st)
        else let seenNames = seenNames @ [toLowerCase name]
             in if map_of (s_nodes st) name \<noteq> None then (seenNames, st)
                else let (nodeId, st) = getOrCreateNodeId uuid name st;
                         context = getContextWindow text name;
                         (t, st) = classify name role context st
                     in (seenNames,
                         addOrUpdateNode
                           \<lparr> x_id = nodeId, x_name = name, x_ipAddress = Null,
                             x_type = Val t, x_services = [],
                             x_metadata = no_meta\<lparr>m_extractedFrom := Val ''instrumentationPattern'',
                                                  m_defaultRole := Val role\<rparr>,
                             x_confidence = 70, x_source = ''text'' \<rparr> st))"

definition systemName_match :: "(nat \<Rightarrow> string) \<Rightarrow> string \<Rightarrow> string \<Rightarrow> string list \<times> xstate \<Rightarrow> string list \<times> xstate" where
  "systemName_match uuid text nodeName acc =
     (case acc of (seenNames, st) \<Rightarrow>
        if toLowerCase nodeName \<in> set seenNames then (seenNames, st)
        else let seenNames = seenNames @ [toLowerCase nodeName]
             in if map_of (s_nodes st) nodeName \<noteq> None then (seenNames, st)
                else let (nodeId, st) = getOrCreateNodeId uuid nodeName st;
                         context = getContextWindow text nodeName;
                         (t, st) = classify nodeName [] context st
                     in (seenNames,
                         addOrUpdateNode
                           \<lparr> x_id = nodeId, x_name = trim nodeName, x_ipAddress = Null,
                             x_type = Val t, x_services = [],
                             x_metadata = no_meta\<lparr>m_extractedFrom := Val ''systemName''\<rparr>,
                             x_confidence = 65, x_source = ''text'' \<rparr> st))"

definition extractFromSystemNames :: "scanner \<Rightarrow> (nat \<Rightarrow> string) \<Rightarrow> string \<Rightarrow> xstate \<Rightarrow> xstate" where
  "extractFromSystemNames sc uuid text st =
     (let acc = fold (os_match uuid text) (scan_osPatterns sc text) ([], st);
          acc = fold (instrumentation_match uuid text) (scan_instrumentation sc text) acc;
          acc = fold (systemName_match uuid text) (scan_systemNames sc text) acc
      in snd acc)"

definition extractNodesFromText :: "scanner \<Rightarrow> (nat \<Rightarrow> string) \<Rightarrow> string \<Rightarrow> xstate \<Rightarrow> xstate" where
  "extractNodesFromText sc uuid text st =
     extractFromSystemNames sc uuid text
       (extractFromInlineFormat sc uuid text (extractFromTableRows sc uuid text st))"

definition findNearestNodeName :: "string \<Rightarrow> string list \<Rightarrow> string js" where
  "findNearestNodeName text nodeNames =
     (case find (\<lambda>nodeName. str_includes text nodeName) (rev nodeNames) of
        Some nodeName \<Rightarrow> Val nodeName
      | None \<Rightarrow> Null)"

definition connection_match ::
  "(nat \<Rightarrow> string) \<Rightarrow> string \<Rightarrow> string list \<Rightarrow> nat \<Rightarrow> nat \<times> string \<times> string js \<Rightarrow> xstate \<Rightarrow> xstate" where
  "connection_match uuid text nodeNames index m st =
     (case m of (match_index, group1, group2) \<Rightarrow>
        let (sourceName, targetName) =
              (if index = 3 \<or> index = 4 \<or> index = 5
               then (findNearestNodeName (substring text (match_index - 200) match_index) nodeNames,
                     Val group1)
               else (Val group1, group2))
        in if \<not> truthy sourceName \<or> \<not> truthy targetName then st
           else (case (map_of (s_nodes st) (str_of sourceName), map_of (s_nodes st) (str_of targetName)) of
                  (Some sourceNode, Some targetNode) \<Rightarrow>
                    if x_id sourceNode = x_id targetNode then st
                    else let context = getContextWindow text (str_of sourceName @ '' '' @ str_of targetName);
                             (protocol, rx) = detectProtocol context (s_rx st);
                             st = st\<lparr>s_rx := rx\<rparr>;
                             isEncrypted = isEncryptedProtocol protocol
                         in if find (\<lambda>conn. q_sourceId conn = x_id sourceNode
                                             \<and> q_targetId conn = x_id targetNode)
                                    (s_connections st) \<noteq> None
                            then st
                            else st\<lparr>s_connections := s_connections st @
                                       [\<lparr> q_id = Val (uuid (s_uuid st)),
                                          q_sourceId = x_id sourceNode,
                                          q_targetId = x_id targetNode,
                                          q_protocol = Val protocol,
                                          q_isEncrypted = Val isEncrypted,
                                          q_isPublicNetwork = Val False,
                                          q_sourceNode = sourceName,
                                          q_targetNode = targetName,
                                          q_extractedFrom = Val ''text'',
                                          q_confidence = 80,
                                          q_source = ''text'' \<rparr>],
                                    s_uuid := Suc (s_uuid st)\<rparr>
                | _ \<Rightarrow> st))"

definition extractConnectionsFromText :: "scanner \<Rightarrow> (nat \<Rightarrow> string) \<Rightarrow> string \<Rightarrow> xstate \<Rightarrow> xstate" where
  "extractConnectionsFromText sc uuid text st =
     (let nodeNames = map fst (s_nodes st)
      in fold (\<lambda>index st. fold (connection_match uuid text nodeNames index)
                                (scan_connection sc index text) st)
              [0 ..< 6] st)"

definition findNodeByNameOrIP :: "string \<Rightarrow> string js \<Rightarrow> xstate \<Rightarrow> xnode option" where
  "findNodeByNameOrIP name ipAddress st =
     find (\<lambda>node. x_name node = name \<or> (truthy ipAddress \<and> x_ipAddress node = ipAddress))
          (map snd (s_nodes st))"

definition merge_vision_node :: "xnode \<Rightarrow> xstate \<Rightarrow> xstate" where
  "merge_vision_node visionNode st =
     (case findNodeByNameOrIP (x_name visionNode) (x_ipAddress visionNode) st of
        Some existingNode \<Rightarrow>
          st\<lparr>s_nodes := map_set (x_name existingNode)
                 (existingNode\<lparr>x_ipAddress := (if \<not> truthy (x_ipAddress existingNode)
                                                      \<and> truthy (x_ipAddress visionNode)
                                                   then x_ipAddress visionNode
                                                   else x_ipAddress existingNode),
                                x_confidence := of_int (math_round
                                   ((x_confidence existingNode + x_confidence visionNode) / 2)),
                                x_metadata := (x_metadata existingNode)\<lparr>m_visionConfirmed := Val True\<rparr>\<rparr>)
                 (s_nodes st)\<rparr>
      | None \<Rightarrow>
          addOrUpdateNode (visionNode\<lparr>x_source := ''vision'',
                                      x_confidence := x_confidence visionNode * (9 / 10)\<rparr>) st)"

definition merge_vision_connection :: "xconn \<Rightarrow> xstate \<Rightarrow> xstate" where
  "merge_vision_connection visionConn st =
     (if find (\<lambda>conn. q_sourceId conn = q_sourceId visionConn
                       \<and> q_targetId conn = q_targetId visionConn) (s_connections st) \<noteq> None
      then st
      else st\<lparr>s_connections := s_connections st @
                 [visionConn\<lparr>q_source := ''vision'',
                             q_confidence := q_confidence visionConn * (8 / 10)\<rparr>]\<rparr>)"

definition mergeVisionResults :: "vision js \<Rightarrow> xstate \<Rightarrow> xstate" where
  "mergeVisionResults visionResults st =
     (case visionResults of
        Val v \<Rightarrow>
          (case v_nodes v of
             Val nodes \<Rightarrow>
               (let st = fold merge_vision_node nodes st
                in case v_connections v of
                     Val connections \<Rightarrow> fold merge_vision_connection connections st
                   | _ \<Rightarrow> st)
           | _ \<Rightarrow> st)
      | _ \<Rightarrow> st)"

definition adjust_node :: "xnode \<Rightarrow> xnode" where
  "adjust_node node =
     (let adjustedConfidence = x_confidence node;
          adjustedConfidence =
            (if truthy (x_ipAddress node) \<and> isValidIPv4 (str_of (x_ipAddress node))
             then adjustedConfidence + 5 else adjustedConfidence - 15);
          adjustedConfidence =
            (if x_services node \<noteq> [] then adjustedConfidence + 5 else adjustedConfidence);
          adjustedConfidence =
            (if truthy (m_role (x_metadata node)) then adjustedConfidence + 5 else adjustedConfidence)
      in node\<lparr>x_confidence := min 100 (max 0 adjustedConfidence)\<rparr>)"

definition adjust_connection :: "xnode list \<Rightarrow> xconn \<Rightarrow> xconn" where
  "adjust_connection nodes conn =
     (case (find (\<lambda>n. x_id n = q_sourceId conn) nodes, find (\<lambda>n. x_id n = q_targetId conn) nodes) of
        (Some sourceNode, Some targetNode) \<Rightarrow>
          (let avgNodeConfidence = (x_confidence sourceNode + x_confidence targetNode) / 2
           in conn\<lparr>q_confidence := of_int (math_round ((q_confidence conn + avgNodeConfidence) / 2))\<rparr>)
      | _ \<Rightarrow> conn)"

definition calculateConfidence :: "xstate \<Rightarrow> xstate" where
  "calculateConfidence st =
     (let st = st\<lparr>s_nodes := map (\<lambda>(name, node). (name, adjust_node node)) (s_nodes st)\<rparr>
      in st\<lparr>s_connections := map (adjust_connection (map snd (s_nodes st))) (s_connections st)\<rparr>)"

record extraction =
  e_nodes :: "xnode list"
  e_connections :: "xconn list"

text \<open>\<open>EntityExtractor.extract\<close> (named \<open>extract_entities\<close> here) resets the extractor's
  nodes and connections; the uuid counter and the state of the pattern objects are the
  ones it finds, and the ones it leaves are returned.\<close>

definition extract_entities ::
  "scanner \<Rightarrow> (nat \<Rightarrow> string) \<Rightarrow> string \<Rightarrow> vision js \<Rightarrow> nat \<times> regex_state
     \<Rightarrow> extraction \<times> nat \<times> regex_state" where
  "extract_entities sc uuid text visionResults env =
     (let st = \<lparr> s_nodes = [], s_connections = [], s_uuid = fst env, s_rx = snd env \<rparr>;
          st = extractNodesFromText sc uuid text st;
          st = extractConnectionsFromText sc uuid text st;
          st = (if present visionResults then mergeVisionResults visionResults st else st);
          st = calculateConfidence st
      in (\<lparr> e_nodes = map snd (s_nodes st), e_connections = s_connections st \<rparr>,
          s_uuid st, s_rx st))"

text \<open>The scans of the two texts used as examples below: on the empty text no pattern
  matches; on the text \<open>parrot\<close> the only match is that of the second entry of
  \<open>OS_PATTERNS\<close>, with hint \<open>parrot\<close> and role \<open>attacker\<close>.\<close>

definition sample_scanner :: scanner where
  "sample_scanner =
     \<lparr> scan_tableRow = (\<lambda>text. []),
       scan_inline = (\<lambda>text. []),
       scan_osPatterns = (\<lambda>text. if text = ''parrot'' then [(''parrot'', ''parrot'', ''attacker'')] else []),
       scan_instrumentation = (\<lambda>text. []),
       scan_systemNames = (\<lambda>text. []),
       scan_connection = (\<lambda>index text. []),
       scan_ports = (\<lambda>text. []) \<rparr>"

definition sample_uuid :: "nat \<Rightarrow> string" where
  "sample_uuid n = ''uuid-'' @ show_nat n"

text \<open>The connections of a secondary result that \<open>mergeVisionResults\<close> looks at, and the
  range of a valid confidence.\<close>

definition vision_connections :: "vision js \<Rightarrow> xconn list" where
  "vision_connections visionResults =
     (case visionResults of
        Val v \<Rightarrow> (case v_nodes v of
                    Val nodes \<Rightarrow> (case v_connections v of Val connections \<Rightarrow> connections | _ \<Rightarrow> [])
                  | _ \<Rightarrow> [])
      | _ \<Rightarrow> [])"


definition mk_vision_connection :: "string \<Rightarrow> string \<Rightarrow> real \<Rightarrow> xconn" where
  "mk_vision_connection s t c =
     \<lparr> q_id = Undefined, q_sourceId = Val s, q_targetId = Val t, q_protocol = Undefined,
       q_isEncrypted = Undefined, q_isPublicNetwork = Undefined, q_sourceNode = Undefined,
       q_targetNode = Undefined, q_extractedFrom = Undefined, q_confidence = c,
       q_source = ''ocr'' \<rparr>"

definition mk_vision :: "xnode list \<Rightarrow> xconn list \<Rightarrow> vision js" where
  "mk_vision nodes connections = Val \<lparr> v_nodes = Val nodes, v_connections = Val connections \<rparr>"

text \<open>A connection list without self-loops, and one without two connections for the same
  pair of endpoints.\<close>

definition loop_free :: "xconn list \<Rightarrow> bool" where
  "loop_free cs \<longleftrightarrow> list_all (\<lambda>c. q_sourceId c \<noteq> q_targetId c) cs"

definition pairs_distinct :: "xconn list \<Rightarrow> bool" where
  "pairs_distinct cs \<longleftrightarrow> distinct (map (\<lambda>c. (q_sourceId c, q_targetId c)) cs)"

text \<open>The extractor's state when the final pass starts.\<close>

definition before_final_pass ::
  "scanner \<Rightarrow> (nat \<Rightarrow> string) \<Rightarrow> string \<Rightarrow> vision js \<Rightarrow> nat \<times> regex_state \<Rightarrow> xstate" where
  "before_final_pass sc uuid text visionResults env =
     (let st = \<lparr> s_nodes = [], s_connections = [], s_uuid = fst env, s_rx = snd env \<rparr>;
          st = extractNodesFromText sc uuid text st;
          st = extractConnectionsFromText sc uuid text st
      in if present visionResults then mergeVisionResults visionResults st else st)"

section \<open>Properties\<close>

subsection \<open>Strings\<close>

lemma show_nat_0: "show_nat 0 = ''0''"
  by (simp add: show_nat.simps digit_char_def)

lemma show_nat_1: "show_nat (Suc 0) = ''1''"
  by (simp add: show_nat.simps digit_char_def)

lemma str_includes_iff: "str_includes hay needle \<longleftrightarrow> (\<exists>p s. hay = p @ needle @ s)"
proof
  assume "str_includes hay needle"
  then obtain i where "take (length needle) (drop i hay) = needle"
    by (auto simp: str_includes_def)
  then have "hay = take i hay @ needle @ drop (length needle) (drop i hay)"
    by (metis append_take_drop_id)
  then show "\<exists>p s. hay = p @ needle @ s" by blast
next
  assume "\<exists>p s. hay = p @ needle @ s"
  then obtain p s where h: "hay = p @ needle @ s" by blast
  have "length p < Suc (length hay)" using h by simp
  moreover have "take (length needle) (drop (length p) hay) = needle" using h by simp
  ultimately show "str_includes hay needle"
    unfolding str_includes_def by (metis atLeast_upt lessThan_iff)
qed

lemma join_includes: "x \<in> set xs \<Longrightarrow> \<exists>p s. join sep xs = p @ x @ s"
proof (induction sep xs rule: join.induct)
  case (1 sep)
  then show ?case by simp
next
  case (2 sep y)
  then have "join sep [y] = [] @ x @ []" by simp
  then show ?case by blast
next
  case (3 sep a b bs)
  show ?case
  proof (cases "x = a")
    case True
    then have "join sep (a # b # bs) = [] @ x @ (sep @ join sep (b # bs))" by simp
    then show ?thesis by blast
  next
    case False
    with 3 obtain p s where "join sep (b # bs) = p @ x @ s" by auto
    then have "join sep (a # b # bs) = (a @ sep @ p) @ x @ s" by simp
    then show ?thesis by blast
  qed
qed

text \<open>Unfolding the sample data and the validators on concrete inputs.\<close>

lemmas sample_defs = mk_element_def mk_flow_def mk_dfdir_def no_options_def DFDElement_new_def
  DFDFlow_new_def dflt_def

lemmas validate_defs = DFDElement_validate_def DFDFlow_validate_def truthy_def blank_def trim_def
  is_ws_def is_number_def confidence_out_of_range_def num_lt_def num_gt_def getElementById_def

subsection \<open>Flow defaults\<close>

text \<open>
  Claim C10. A flow constructed without \<open>protocol\<close>, \<open>isEncrypted\<close> and
  \<open>isPublicNetwork\<close> has protocol \<open>HTTPS\<close>, is encrypted and is not on a public
  network, whatever its other fields are.
\<close>

theorem DFDFlow_defaults:
  "fl_protocol (DFDFlow_new (a\<lparr>fl_protocol := Undefined, fl_isEncrypted := Undefined,
                               fl_isPublicNetwork := Undefined\<rparr>)) = Val ''HTTPS''
   \<and> fl_isEncrypted (DFDFlow_new (a\<lparr>fl_protocol := Undefined, fl_isEncrypted := Undefined,
                                     fl_isPublicNetwork := Undefined\<rparr>)) = Val True
   \<and> fl_isPublicNetwork (DFDFlow_new (a\<lparr>fl_protocol := Undefined, fl_isEncrypted := Undefined,
                                         fl_isPublicNetwork := Undefined\<rparr>)) = Val False"
  by (simp add: DFDFlow_new_def dflt_def)

subsection \<open>The shape vocabulary\<close>

text \<open>
  Claim C9. The misspelled \<open>trust-broundary-curve\<close> is a legal shape, and the
  correctly spelled \<open>trust-boundary-curve\<close> is not.
\<close>

theorem isValidShape_legacy_spelling:
  "isValidShape (Val ''trust-broundary-curve'') \<and> \<not> isValidShape (Val ''trust-boundary-curve'')"
  by (simp add: isValidShape_def truthy_def ValidShapes_def ShapeAliases_def)

subsection \<open>Validation of the container\<close>



text \<open>What it is for one element, or one flow, to validate.\<close>

lemma DFDElement_validate_empty_iff:
  "DFDElement_validate e = [] \<longleftrightarrow>
     truthy (el_id e) \<and> truthy (el_name e) \<and> \<not> blank (el_name e)
     \<and> el_type e \<in> {Val ''actor'', Val ''process'', Val ''store''}
     \<and> is_number (el_x e) \<and> is_number (el_y e)
     \<and> \<not> confidence_out_of_range (el_confidence e)"
  by (simp add: DFDElement_validate_def)

lemma DFDFlow_validate_empty_iff:
  "DFDFlow_validate f = [] \<longleftrightarrow>
     truthy (fl_id f) \<and> truthy (fl_sourceId f) \<and> truthy (fl_targetId f)
     \<and> fl_sourceId f \<noteq> fl_targetId f
     \<and> \<not> confidence_out_of_range (fl_confidence f)"
  by (simp add: DFDFlow_validate_def)

lemma confidence_accepted_iff:
  "\<not> confidence_out_of_range c \<longleftrightarrow> (\<exists>n. c = Val n \<and> \<not> num_lt n 0 \<and> \<not> num_gt n 100)"
  by (cases c) (auto simp: confidence_out_of_range_def)

lemma getElementById_resolves_iff:
  "getElementById d i \<noteq> None \<longleftrightarrow> (\<exists>e \<in> set (d_elements d). el_id e = i)"
  by (auto simp: getElementById_def find_None_iff)



subsection \<open>Conversion of an invalid container\<close>

lemma fromStringErrors_fold_messages:
  "map i_message (r_errors (fold (\<lambda>msg. addError \<lparr> i_code = c, i_message = msg, i_path = p,
        i_severity = sv, i_suggestion = sg \<rparr>) es r)) = map i_message (r_errors r) @ es"
  by (induction es arbitrary: r) (simp_all add: addError_def)

lemma fromStringErrors_messages:
  "map i_message (r_errors (fromStringErrors es src)) = es"
  by (simp add: fromStringErrors_def fromStringErrors_fold_messages createResult_def)

lemma validateDFDIR_invalid:
  assumes "\<not> v_valid (DFDIR_validate d)"
  shows "\<not> r_valid (validateDFDIR d)"
    and "map i_message (r_errors (validateDFDIR d)) = v_errors (DFDIR_validate d)"
proof -
  have ne: "v_errors (DFDIR_validate d) \<noteq> []"
    using assms by (simp add: DFDIR_validate_def Let_def)
  have m: "map i_message (r_errors (fromStringErrors (v_errors (DFDIR_validate d)) ''dfdir''))
           = v_errors (DFDIR_validate d)"
    by (rule fromStringErrors_messages)
  then have ne': "r_errors (fromStringErrors (v_errors (DFDIR_validate d)) ''dfdir'') \<noteq> []"
    using ne by auto
  show "\<not> r_valid (validateDFDIR d)"
    using assms ne' by (simp add: validateDFDIR_def Let_def merge_def)
  show "map i_message (r_errors (validateDFDIR d)) = v_errors (DFDIR_validate d)"
    using assms m by (simp add: validateDFDIR_def Let_def merge_def createResult_def)
qed

lemma convert_invalid:
  "\<not> v_valid (DFDIR_validate d) \<Longrightarrow>
   convert d opts = Inl (''DFDIR validation failed: '' @ join '', '' (v_errors (DFDIR_validate d)))"
  using validateDFDIR_invalid [of d] by (simp add: convert_def Let_def)

lemma flow_errors_source_message:
  "i < length fs \<Longrightarrow> getElementById d (fl_sourceId (fs ! i)) = None \<Longrightarrow>
   (''Flow '' @ show_nat (k + i) @ '': Source element '' @ str_of (fl_sourceId (fs ! i)) @ '' not found'')
     \<in> set (flow_errors d k fs)"
proof (induction fs arbitrary: i k)
  case Nil
  then show ?case by simp
next
  case (Cons f fs)
  show ?case
  proof (cases i)
    case 0
    with Cons.prems show ?thesis by (simp add: Let_def)
  next
    case (Suc j)
    with Cons.prems have "j < length fs" "getElementById d (fl_sourceId (fs ! j)) = None" by simp_all
    from Cons.IH [OF this, of "Suc k"] Suc show ?thesis by (simp add: Let_def)
  qed
qed

text \<open>
  Claim C2. When \<open>validate\<close> reports a container invalid, \<open>convert\<close> throws an error
  whose message is the prefix \<open>DFDIR validation failed: \<close> followed by all the
  validation messages joined by commas. In particular, when the flow at index \<open>i\<close> has a
  \<open>sourceId\<close> that no element carries, \<open>convert\<close> throws and the message contains
  \<open>Flow i: Source element <sourceId> not found\<close>.
\<close>

theorem convert_throws_on_invalid:
  "(\<not> v_valid (DFDIR_validate d) \<longrightarrow>
      convert d opts = Inl (''DFDIR validation failed: '' @ join '', '' (v_errors (DFDIR_validate d))))
   \<and> (\<forall>i < length (d_flows d). getElementById d (fl_sourceId (d_flows d ! i)) = None \<longrightarrow>
        (\<exists>msg. convert d opts = Inl msg
           \<and> str_includes msg (''Flow '' @ show_nat i @ '': Source element ''
                                 @ str_of (fl_sourceId (d_flows d ! i)) @ '' not found'')))"
proof (intro conjI allI impI)
  assume "\<not> v_valid (DFDIR_validate d)"
  then show "convert d opts = Inl (''DFDIR validation failed: '' @ join '', '' (v_errors (DFDIR_validate d)))"
    by (rule convert_invalid)
next
  fix i
  assume i: "i < length (d_flows d)" and miss: "getElementById d (fl_sourceId (d_flows d ! i)) = None"
  let ?m = "''Flow '' @ show_nat i @ '': Source element '' @ str_of (fl_sourceId (d_flows d ! i)) @ '' not found''"
  have mem: "?m \<in> set (v_errors (DFDIR_validate d))"
    using flow_errors_source_message [OF i miss, of 0] by (simp add: DFDIR_validate_def Let_def)
  then have inv: "\<not> v_valid (DFDIR_validate d)"
    by (auto simp: DFDIR_validate_def Let_def)
  from join_includes [OF mem, of "'', ''"] obtain p s
    where "join '', '' (v_errors (DFDIR_validate d)) = p @ ?m @ s" by blast
  then have "''DFDIR validation failed: '' @ join '', '' (v_errors (DFDIR_validate d))
             = (''DFDIR validation failed: '' @ p) @ ?m @ s" by simp
  then have "str_includes (''DFDIR validation failed: '' @ join '', '' (v_errors (DFDIR_validate d))) ?m"
    unfolding str_includes_iff by blast
  with convert_invalid [OF inv, of opts]
  show "\<exists>msg. convert d opts = Inl msg \<and> str_includes msg ?m" by blast
qed

theorem convert_throws_on_invalid_witness:
  "convert (mk_dfdir [mk_element ''a'' ''A'' ''actor''] [mk_flow ''f'' ''ghost'' ''a'']) no_options
     = Inl ''DFDIR validation failed: Flow 0: Source element ghost not found''
   \<and> str_includes ''DFDIR validation failed: Flow 0: Source element ghost not found''
                   ''Flow 0: Source element ghost not found''"
proof -
  let ?d = "mk_dfdir [mk_element ''a'' ''A'' ''actor''] [mk_flow ''f'' ''ghost'' ''a'']"
  have e: "v_errors (DFDIR_validate ?d) = [''Flow 0: Source element ghost not found'']"
    by (simp add: DFDIR_validate_def sample_defs validate_defs show_nat_0 str_of_def)
  have inv: "\<not> v_valid (DFDIR_validate ?d)"
    by (simp add: DFDIR_validate_def sample_defs validate_defs)
  have i: "0 < length (d_flows ?d)" by (simp add: mk_dfdir_def)
  have miss: "getElementById ?d (fl_sourceId (d_flows ?d ! 0)) = None"
    by (simp add: sample_defs validate_defs)
  from convert_throws_on_invalid [of ?d no_options] inv i miss
  have c: "convert ?d no_options = Inl (''DFDIR validation failed: '' @ join '', '' (v_errors (DFDIR_validate ?d)))"
    and "\<exists>msg. convert ?d no_options = Inl msg
           \<and> str_includes msg (''Flow '' @ show_nat 0 @ '': Source element ''
                                 @ str_of (fl_sourceId (d_flows ?d ! 0)) @ '' not found'')"
    by blast+
  then show ?thesis
    using e by (auto simp: show_nat_0 str_of_def sample_defs)
qed

subsection \<open>Serialisation round trip\<close>

lemma dflt_idem: "d \<noteq> Undefined \<Longrightarrow> dflt d (dflt d v) = dflt d v"
  by (cases v) (auto simp: dflt_def split: js.splits)

lemma DFDElement_new_stable: "DFDElement_new (DFDElement_toJSON (DFDElement_new a)) = DFDElement_new a"
  by (simp add: DFDElement_new_def DFDElement_toJSON_def dflt_idem)

lemma DFDFlow_new_stable: "DFDFlow_new (DFDFlow_toJSON (DFDFlow_new a)) = DFDFlow_new a"
  by (simp add: DFDFlow_new_def DFDFlow_toJSON_def dflt_idem)

lemma DFDElement_toJSON_id [simp]: "el_id (DFDElement_toJSON e) = el_id e"
  by (simp add: DFDElement_toJSON_def)

lemma DFDFlow_toJSON_id [simp]: "fl_id (DFDFlow_toJSON f) = fl_id f"
  by (simp add: DFDFlow_toJSON_def)

lemma DFDElement_new_id [simp]: "el_id (DFDElement_new a) = el_id a"
  by (simp add: DFDElement_new_def)

lemma DFDFlow_new_id [simp]: "fl_id (DFDFlow_new a) = fl_id a"
  by (simp add: DFDFlow_new_def)

lemma set_remove_first: "set (remove_first P xs) \<subseteq> set xs"
  by (induction xs) auto

lemma distinct_map_remove_first: "distinct (map f xs) \<Longrightarrow> distinct (map f (remove_first P xs))"
proof (induction xs)
  case Nil
  then show ?case by simp
next
  case (Cons x xs)
  then show ?case using set_remove_first [of P xs] by auto
qed

lemma instance_well_formed: "DFDIR_instance d \<Longrightarrow> well_formed d"
proof (induction rule: DFDIR_instance.induct)
  case (created created name)
  then show ?case by (simp add: well_formed_def DFDIR_new_def)
next
  case (element_added d a d')
  then show ?case
    by (auto simp: well_formed_def addElement_def find_None_iff DFDElement_new_stable split: if_splits) blast
next
  case (flow_added d a d')
  then show ?case
    by (auto simp: well_formed_def addFlow_def find_None_iff DFDFlow_new_stable split: if_splits) blast
next
  case (element_removed d i)
  have "set (remove_first (\<lambda>el. el_id el = i) (d_elements d)) \<subseteq> set (d_elements d)"
    by (rule set_remove_first)
  with element_removed show ?case
    by (auto simp: well_formed_def removeElement_def distinct_map_remove_first list_all_iff
        distinct_map_filter)
next
  case (flow_removed d i)
  have "set (remove_first (\<lambda>f. fl_id f = i) (d_flows d)) \<subseteq> set (d_flows d)"
    by (rule set_remove_first)
  with flow_removed show ?case
    by (auto simp: well_formed_def removeFlow_def distinct_map_remove_first list_all_iff)
qed

lemma add_elements_roundtrip:
  "distinct (map el_id es) \<Longrightarrow> \<forall>e \<in> set es. el_id e \<notin> el_id ` set (d_elements d) \<Longrightarrow>
   list_all (\<lambda>e. DFDElement_new (DFDElement_toJSON e) = e) es \<Longrightarrow>
   add_elements (map DFDElement_toJSON es) d = Inr (d\<lparr>d_elements := d_elements d @ es\<rparr>)"
proof (induction es arbitrary: d)
  case Nil
  then show ?case by simp
next
  case (Cons e es)
  have step: "addElement (DFDElement_new (DFDElement_toJSON e)) d = Inr (d\<lparr>d_elements := d_elements d @ [e]\<rparr>)"
    using Cons.prems by (auto simp: addElement_def find_None_iff) (metis image_eqI)
  have "add_elements (map DFDElement_toJSON es) (d\<lparr>d_elements := d_elements d @ [e]\<rparr>)
        = Inr (d\<lparr>d_elements := d_elements d @ [e]\<rparr>\<lparr>d_elements := d_elements (d\<lparr>d_elements := d_elements d @ [e]\<rparr>) @ es\<rparr>)"
    using Cons.prems by (intro Cons.IH) (auto, (metis image_eqI)+)
  with step show ?case by simp
qed

lemma add_flows_roundtrip:
  "distinct (map fl_id fs) \<Longrightarrow> \<forall>f \<in> set fs. fl_id f \<notin> fl_id ` set (d_flows d) \<Longrightarrow>
   list_all (\<lambda>f. DFDFlow_new (DFDFlow_toJSON f) = f) fs \<Longrightarrow>
   add_flows (map DFDFlow_toJSON fs) d = Inr (d\<lparr>d_flows := d_flows d @ fs\<rparr>)"
proof (induction fs arbitrary: d)
  case Nil
  then show ?case by simp
next
  case (Cons f fs)
  have step: "addFlow (DFDFlow_new (DFDFlow_toJSON f)) d = Inr (d\<lparr>d_flows := d_flows d @ [f]\<rparr>)"
    using Cons.prems by (auto simp: addFlow_def find_None_iff) (metis image_eqI)
  have "add_flows (map DFDFlow_toJSON fs) (d\<lparr>d_flows := d_flows d @ [f]\<rparr>)
        = Inr (d\<lparr>d_flows := d_flows d @ [f]\<rparr>\<lparr>d_flows := d_flows (d\<lparr>d_flows := d_flows d @ [f]\<rparr>) @ fs\<rparr>)"
    using Cons.prems by (intro Cons.IH) (auto, (metis image_eqI)+)
  with step show ?case by simp
qed

text \<open>
  Claim C7. For a container built through the constructor and the methods
  \<open>addElement\<close>, \<open>addFlow\<close>, \<open>removeElement\<close> and \<open>removeFlow\<close>,
  \<open>fromJSON(toJSON())\<close> returns a container with the same elements and the same flows,
  field by field.
\<close>

theorem fromJSON_toJSON_roundtrip:
  assumes "DFDIR_instance d"
  shows "\<exists>d'. DFDIR_fromJSON created (DFDIR_toJSON d) = Inr d'
              \<and> d_elements d' = d_elements d \<and> d_flows d' = d_flows d"
proof -
  from assms have wf: "well_formed d" by (rule instance_well_formed)
  define d0 where "d0 = (DFDIR_new created (d_name d))\<lparr>d_metadata :=
      (case d_metadata d of Val m \<Rightarrow> Val m | _ \<Rightarrow> d_metadata (DFDIR_new created (d_name d)))\<rparr>"
  have e0: "d_elements d0 = []" and f0: "d_flows d0 = []"
    by (simp_all add: d0_def DFDIR_new_def)
  have 1: "add_elements (map DFDElement_toJSON (d_elements d)) d0 = Inr (d0\<lparr>d_elements := d_elements d0 @ d_elements d\<rparr>)"
    using wf e0 by (intro add_elements_roundtrip) (simp_all add: well_formed_def)
  have 2: "add_flows (map DFDFlow_toJSON (d_flows d)) (d0\<lparr>d_elements := d_elements d0 @ d_elements d\<rparr>)
           = Inr (d0\<lparr>d_elements := d_elements d0 @ d_elements d\<rparr>\<lparr>d_flows := d_flows (d0\<lparr>d_elements := d_elements d0 @ d_elements d\<rparr>) @ d_flows d\<rparr>)"
    using wf f0 by (intro add_flows_roundtrip) (simp_all add: well_formed_def)
  have "DFDIR_fromJSON created (DFDIR_toJSON d)
        = Inr (d0\<lparr>d_elements := d_elements d, d_flows := d_flows d\<rparr>)"
    using 1 2 e0 f0 by (simp add: DFDIR_fromJSON_def DFDIR_toJSON_def Let_def d0_def [symmetric])
  then show ?thesis by simp
qed

theorem fromJSON_toJSON_roundtrip_witness:
  "\<exists>d'. DFDIR_fromJSON ''later''
           (DFDIR_toJSON ((DFDIR_new ''now'' (Val ''net''))
              \<lparr>d_elements := [mk_element ''a'' ''A'' ''actor'', mk_element ''b'' ''B'' ''store''],
                d_flows := [mk_flow ''f'' ''a'' ''b'']\<rparr>)) = Inr d'
        \<and> d_elements d' = [mk_element ''a'' ''A'' ''actor'', mk_element ''b'' ''B'' ''store'']
        \<and> d_flows d' = [mk_flow ''f'' ''a'' ''b'']"
proof -
  let ?d0 = "DFDIR_new ''now'' (Val ''net'')"
  let ?d1 = "?d0\<lparr>d_elements := [mk_element ''a'' ''A'' ''actor'']\<rparr>"
  let ?d2 = "?d0\<lparr>d_elements := [mk_element ''a'' ''A'' ''actor'', mk_element ''b'' ''B'' ''store'']\<rparr>"
  let ?d3 = "?d0\<lparr>d_elements := [mk_element ''a'' ''A'' ''actor'', mk_element ''b'' ''B'' ''store''],
                  d_flows := [mk_flow ''f'' ''a'' ''b'']\<rparr>"
  have 0: "DFDIR_instance ?d0" by (rule DFDIR_instance.created)
  have "addElement (mk_element ''a'' ''A'' ''actor'') ?d0 = Inr ?d1"
    by (simp add: addElement_def DFDIR_new_def)
  then have 1: "DFDIR_instance ?d1"
    unfolding mk_element_def by (rule DFDIR_instance.element_added [OF 0])
  have "addElement (mk_element ''b'' ''B'' ''store'') ?d1 = Inr ?d2"
    by (simp add: addElement_def DFDIR_new_def mk_element_def DFDElement_new_def)
  then have 2: "DFDIR_instance ?d2"
    unfolding mk_element_def by (rule DFDIR_instance.element_added [OF 1 [unfolded mk_element_def]])
  have "addFlow (mk_flow ''f'' ''a'' ''b'') ?d2 = Inr ?d3"
    by (simp add: addFlow_def DFDIR_new_def)
  then have 3: "DFDIR_instance ?d3"
    unfolding mk_element_def mk_flow_def
    by (rule DFDIR_instance.flow_added [OF 2 [unfolded mk_element_def]])
  from fromJSON_toJSON_roundtrip [OF 3, of "''later''"] show ?thesis by simp
qed

subsection \<open>Dangling edge references\<close>

lemma addError_simps [simp]:
  "r_errors (addError e r) = r_errors r @ [e]"
  "r_warnings (addError e r) = r_warnings r"
  "r_valid (addError e r) = False"
  by (simp_all add: addError_def)

lemma addWarning_simps [simp]:
  "r_errors (addWarning w r) = r_errors r"
  "r_warnings (addWarning w r) = r_warnings r @ [w]"
  "r_valid (addWarning w r) = r_valid r"
  by (simp_all add: addWarning_def)

lemma createResult_simps [simp]:
  "r_errors (createResult s) = []"
  "r_warnings (createResult s) = []"
  "r_valid (createResult s) = True"
  by (simp_all add: createResult_def)

lemma merge_simps [simp]:
  "r_errors (merge other r) = r_errors r @ r_errors other"
  "r_warnings (merge other r) = r_warnings r @ r_warnings other"
  "r_valid (merge other r) = (r_errors other = [] \<and> r_valid r)"
  by (simp_all add: merge_def)

lemma sound_addError [simp]: "i_code e \<noteq> ''ORPHAN_FLOW'' \<Longrightarrow> sound (addError e r) = (''ORPHAN_FLOW'' \<notin> i_code ` set (r_errors r))"
  by (auto simp add: sound_def)

lemma sound_addWarning [simp]: "sound (addWarning w r) = sound r"
  by (simp add: sound_def)

lemma sound_createResult [simp]: "sound (createResult s)"
  by (simp add: sound_def)
























subsection \<open>Grid alignment of the layout\<close>



lemma length_place [simp]: "length (place L x y sp is nodes) = length nodes"
  by (induction "is" arbitrary: x nodes) simp_all


lemma length_positionTier [simp]: "length (positionTier L t sx y sp nodes) = length nodes"
  by (simp add: positionTier_def Let_def)


lemma length_position_levels [simp]: "length (position_levels L y levels nodes) = length nodes"
  by (induction levels arbitrary: y nodes) simp_all














text \<open>The layout returns for each of the three algorithms, unless a node type names an
  inherited property of the tier table.\<close>

lemma calculateLayout_returns:
  assumes "layoutType \<in> {''tiered'', ''radial'', ''hierarchical''}"
    and "\<forall>node \<in> set nodes. tier_of node \<noteq> Inl TypeError"
  shows "\<exists>out. calculateLayout M L nodes connections layoutType = Inr out"
  using assms
  by (auto simp: calculateLayout_def calculateHierarchicalLayout_def calculateTieredLayout_def Let_def)


text \<open>With a grid unit of zero every coordinate is \<open>NaN\<close>.\<close>

lemma layout_zero_grid_unit:
  "calculateLayout crude_math (T2TLayout_new 0) [mk_node ''a'' ''actor''] [] ''tiered''
   = Inr [\<lparr>n_id = Val ''a'', n_type = Val ''actor'', n_x = Val NaN, n_y = Val NaN\<rparr>]
   \<and> \<not> on_grid 0 (Val NaN)"
  by code_simp

subsection \<open>Confidence of extracted nodes and connections\<close>




text \<open>The steps that extract nodes leave the connections alone.\<close>

lemma conns_getOrCreateNodeId:
  "getOrCreateNodeId uuid n st = (i, st') \<Longrightarrow> s_connections st' = s_connections st"
  by (auto simp: getOrCreateNodeId_def split: option.splits)

lemma conns_addOrUpdateNode [simp]:
  "s_connections (addOrUpdateNode n st) = s_connections st"
  by (simp add: addOrUpdateNode_def split: option.splits)

lemma conns_classify:
  "classify n r c st = (t, st') \<Longrightarrow> s_connections st' = s_connections st"
  by (auto simp: classify_def split: prod.splits)

lemma conns_table_row [simp]: "s_connections (table_row sc uuid text m st) = s_connections st"
  by (auto simp: table_row_def Let_def split: prod.splits
      dest!: conns_classify conns_getOrCreateNodeId)

lemma conns_inline_match [simp]: "s_connections (inline_match uuid text m st) = s_connections st"
  by (auto simp: inline_match_def Let_def split: prod.splits option.splits
      dest!: conns_classify conns_getOrCreateNodeId)

lemma conns_os_match [simp]:
  "s_connections (snd (os_match uuid text m acc)) = s_connections (snd acc)"
  by (auto simp: os_match_def Let_def split: prod.splits
      dest!: conns_classify conns_getOrCreateNodeId)

lemma conns_instrumentation_match [simp]:
  "s_connections (snd (instrumentation_match uuid text m acc)) = s_connections (snd acc)"
  by (auto simp: instrumentation_match_def Let_def split: prod.splits
      dest!: conns_classify conns_getOrCreateNodeId)

lemma conns_systemName_match [simp]:
  "s_connections (snd (systemName_match uuid text m acc)) = s_connections (snd acc)"
  by (auto simp: systemName_match_def Let_def split: prod.splits
      dest!: conns_classify conns_getOrCreateNodeId)

lemma fold_frame:
  "(\<And>x s. g (f x s) = g s) \<Longrightarrow> g (fold f xs s) = g s"
  by (induction xs arbitrary: s) simp_all

lemma conns_extractNodesFromText [simp]:
  "s_connections (extractNodesFromText sc uuid text st) = s_connections st"
  unfolding extractNodesFromText_def extractFromSystemNames_def extractFromInlineFormat_def
    extractFromTableRows_def Let_def
  by (simp add: fold_frame [where g = s_connections] fold_frame [where g = "\<lambda>acc. s_connections (snd acc)"])


text \<open>One connection match appends at most one connection: of confidence 80, not a
  self-loop, and for a pair of endpoints not yet connected.\<close>

lemma connection_match_cases:
  "s_connections (connection_match uuid text names index m st) = s_connections st
   \<or> (\<exists>c. s_connections (connection_match uuid text names index m st) = s_connections st @ [c]
          \<and> q_confidence c = 80 \<and> q_sourceId c \<noteq> q_targetId c
          \<and> (q_sourceId c, q_targetId c) \<notin> (\<lambda>c. (q_sourceId c, q_targetId c)) ` set (s_connections st))"
  unfolding connection_match_def Let_def
  by (auto split: prod.splits option.splits simp: find_None_iff)

lemma merge_vision_connection_cases:
  "s_connections (merge_vision_connection v st) = s_connections st
   \<or> (\<exists>c. s_connections (merge_vision_connection v st) = s_connections st @ [c]
          \<and> q_confidence c = q_confidence v * (8 / 10)
          \<and> q_sourceId c = q_sourceId v \<and> q_targetId c = q_targetId v
          \<and> (q_sourceId c, q_targetId c) \<notin> (\<lambda>c. (q_sourceId c, q_targetId c)) ` set (s_connections st))"
  unfolding merge_vision_connection_def
  by (auto simp: find_None_iff)

lemma conns_merge_vision_node [simp]:
  "s_connections (merge_vision_node v st) = s_connections st"
  by (simp add: merge_vision_node_def split: option.splits)

lemma extractConnectionsFromText_invariant:
  assumes "P (s_connections st)"
    and "\<And>cs c. P cs \<Longrightarrow> q_confidence c = 80 \<Longrightarrow> q_sourceId c \<noteq> q_targetId c \<Longrightarrow>
           (q_sourceId c, q_targetId c) \<notin> (\<lambda>c. (q_sourceId c, q_targetId c)) ` set cs \<Longrightarrow> P (cs @ [c])"
  shows "P (s_connections (extractConnectionsFromText sc uuid text st))"
proof -
  have step: "P (s_connections (connection_match uuid text names index m s))"
    if "P (s_connections s)" for names index m s
    using connection_match_cases [of uuid "text" names index m s] that assms(2) by auto
  have inner: "P (s_connections (fold (connection_match uuid text names index) ms s))"
    if "P (s_connections s)" for names index ms s
    using that by (induction ms arbitrary: s) (simp_all add: step)
  have outer: "P (s_connections (fold (\<lambda>index st. fold (connection_match uuid text names index)
                                  (scan_connection sc index text) st) idxs s))"
    if "P (s_connections s)" for names idxs s
    using that by (induction idxs arbitrary: s) (simp_all add: inner)
  show ?thesis
    unfolding extractConnectionsFromText_def Let_def using assms(1) by (rule outer)
qed

lemma mergeVisionResults_invariant:
  assumes "P (s_connections st)"
    and "\<And>cs c v. P cs \<Longrightarrow> v \<in> set (vision_connections vis) \<Longrightarrow>
           q_confidence c = q_confidence v * (8 / 10) \<Longrightarrow>
           q_sourceId c = q_sourceId v \<Longrightarrow> q_targetId c = q_targetId v \<Longrightarrow>
           (q_sourceId c, q_targetId c) \<notin> (\<lambda>c. (q_sourceId c, q_targetId c)) ` set cs \<Longrightarrow> P (cs @ [c])"
  shows "P (s_connections (mergeVisionResults vis st))"
proof -
  have step: "P (s_connections (merge_vision_connection v s))"
    if "P (s_connections s)" "v \<in> set (vision_connections vis)" for v s
  proof -
    from merge_vision_connection_cases [of v s]
    consider "s_connections (merge_vision_connection v s) = s_connections s"
      | c where "s_connections (merge_vision_connection v s) = s_connections s @ [c]"
          "q_confidence c = q_confidence v * (8 / 10)"
          "q_sourceId c = q_sourceId v" "q_targetId c = q_targetId v"
          "(q_sourceId c, q_targetId c) \<notin> (\<lambda>c. (q_sourceId c, q_targetId c)) ` set (s_connections s)"
      by blast
    then show ?thesis
    proof cases
      case 1
      then show ?thesis using that(1) by simp
    next
      case (2 c)
      from assms(2) [OF that(1) that(2) 2(2) 2(3) 2(4) 2(5)] 2(1) show ?thesis by simp
    qed
  qed
  have conns: "P (s_connections (fold merge_vision_connection vs s))"
    if "P (s_connections s)" "set vs \<subseteq> set (vision_connections vis)" for vs s
    using that by (induction vs arbitrary: s) (simp_all add: step)
  have nodes: "s_connections (fold merge_vision_node ns st) = s_connections st" for ns
    by (simp add: fold_frame [where g = s_connections])
  show ?thesis
  proof (cases vis)
    case (Val v)
    show ?thesis
    proof (cases "v_nodes v")
      case n: (Val ns)
      show ?thesis
      proof (cases "v_connections v")
        case c: (Val cs)
        have "vision_connections vis = cs"
          using Val n c by (simp add: vision_connections_def)
        then have "P (s_connections (fold merge_vision_connection cs (fold merge_vision_node ns st)))"
          using assms(1) nodes by (intro conns) simp_all
        then show ?thesis using Val n c by (simp add: mergeVisionResults_def)
      qed (use Val n nodes assms(1) in \<open>simp_all add: mergeVisionResults_def\<close>)
    qed (use Val assms(1) in \<open>simp_all add: mergeVisionResults_def\<close>)
  qed (use assms(1) in \<open>simp_all add: mergeVisionResults_def\<close>)
qed

text \<open>The state before the final pass, and what \<open>extract\<close> returns from it.\<close>

lemma extract_entities_result:
  "e_nodes (fst (extract_entities sc uuid text vis env))
     = map adjust_node (map snd (s_nodes (before_final_pass sc uuid text vis env)))"
  "e_connections (fst (extract_entities sc uuid text vis env))
     = map (adjust_connection (map adjust_node (map snd (s_nodes (before_final_pass sc uuid text vis env)))))
           (s_connections (before_final_pass sc uuid text vis env))"
  unfolding extract_entities_def before_final_pass_def calculateConfidence_def Let_def
  by (simp_all add: comp_def case_prod_beta)

lemma before_final_pass_invariant:
  assumes "P []"
    and "\<And>cs c. P cs \<Longrightarrow> q_confidence c = 80 \<Longrightarrow> q_sourceId c \<noteq> q_targetId c \<Longrightarrow>
           (q_sourceId c, q_targetId c) \<notin> (\<lambda>c. (q_sourceId c, q_targetId c)) ` set cs \<Longrightarrow> P (cs @ [c])"
    and "\<And>cs c v. P cs \<Longrightarrow> v \<in> set (vision_connections vis) \<Longrightarrow>
           q_confidence c = q_confidence v * (8 / 10) \<Longrightarrow>
           q_sourceId c = q_sourceId v \<Longrightarrow> q_targetId c = q_targetId v \<Longrightarrow>
           (q_sourceId c, q_targetId c) \<notin> (\<lambda>c. (q_sourceId c, q_targetId c)) ` set cs \<Longrightarrow> P (cs @ [c])"
  shows "P (s_connections (before_final_pass sc uuid text vis env))"
proof -
  let ?st0 = "\<lparr> s_nodes = [], s_connections = [], s_uuid = fst env, s_rx = snd env \<rparr>"
  have 1: "P (s_connections (extractConnectionsFromText sc uuid text (extractNodesFromText sc uuid text ?st0)))"
    by (rule extractConnectionsFromText_invariant) (simp_all add: assms(1,2))
  have 2: "P (s_connections (mergeVisionResults vis
              (extractConnectionsFromText sc uuid text (extractNodesFromText sc uuid text ?st0))))"
    by (rule mergeVisionResults_invariant [where P = P, OF 1]) (rule assms(3))
  show ?thesis unfolding before_final_pass_def Let_def using 1 2 by simp
qed




subsection \<open>Self-loops and duplicate connections\<close>

lemma before_final_pass_pairs_distinct:
  "pairs_distinct (s_connections (before_final_pass sc uuid text vis env))"
  by (rule before_final_pass_invariant) (simp_all add: pairs_distinct_def)

lemma before_final_pass_loop_free:
  assumes "loop_free (vision_connections vis)"
  shows "loop_free (s_connections (before_final_pass sc uuid text vis env))"
proof (rule before_final_pass_invariant, goal_cases)
  case 1
  show ?case by (simp add: loop_free_def)
next
  case (2 cs c)
  then show ?case by (simp add: loop_free_def)
next
  case (3 cs c v)
  with assms show ?case by (auto simp: loop_free_def list_all_iff)
qed

lemma adjust_connection_ids [simp]:
  "q_sourceId (adjust_connection nodes c) = q_sourceId c"
  "q_targetId (adjust_connection nodes c) = q_targetId c"
  by (simp_all add: adjust_connection_def Let_def split: option.splits)

text \<open>No two returned connections have the same pair of endpoints; and none is a
  self-loop when the secondary result brings none. Connections found in the text are never
  self-loops.\<close>

lemma extract_pairs_distinct:
  "pairs_distinct (e_connections (fst (extract_entities sc uuid text vis env)))"
  using before_final_pass_pairs_distinct [of sc uuid "text" vis env]
  by (simp add: extract_entities_result pairs_distinct_def comp_def)

lemma extract_loop_free:
  "loop_free (vision_connections vis) \<Longrightarrow>
   loop_free (e_connections (fst (extract_entities sc uuid text vis env)))"
  using before_final_pass_loop_free [of vis sc uuid "text" env]
  by (simp add: extract_entities_result loop_free_def list_all_iff)

text \<open>
  Claim C5. The claim holds for the connections found in the text and fails for those of a
  secondary result, which are only checked for duplicates: on the empty text, a secondary
  result with the one connection \<open>n1 \<rightarrow> n1\<close> gives back that self-loop.
\<close>

theorem vision_self_loop_kept:
  "map (\<lambda>c. (q_sourceId c, q_targetId c, q_source c))
       (e_connections (fst (extract_entities sample_scanner sample_uuid []
          (mk_vision [] [mk_vision_connection ''n1'' ''n1'' 50]) (0, fresh_regex_state))))
   = [(Val ''n1'', Val ''n1'', ''vision'')]"
  by code_simp

subsection \<open>Repeated extraction\<close>

text \<open>\<open>classifyNodeType\<close> tests a pattern object that has the global flag: the second
  of two identical calls starts its search where the first match ended.\<close>

lemma classifyNodeType_twice:
  "fst (classifyNodeType ''parrot'' ''attacker'' ''parrot'' fresh_regex_state) = ''actor''
   \<and> fst (classifyNodeType ''parrot'' ''attacker'' ''parrot''
            (snd (classifyNodeType ''parrot'' ''attacker'' ''parrot'' fresh_regex_state))) = ''process''"
  by code_simp

text \<open>
  Claim C3. Extraction is not a function of the text alone: on the text \<open>parrot\<close>, the
  first run classifies the node as an actor; a second run, which differs only in the state
  that the first one left in the pattern objects, classifies it as a process.
\<close>

theorem classification_depends_on_earlier_runs:
  "map x_type (e_nodes (fst (extract_entities sample_scanner sample_uuid ''parrot'' Null
        (0, fresh_regex_state)))) = [Val ''actor'']
   \<and> map x_type (e_nodes (fst (extract_entities sample_scanner sample_uuid ''parrot'' Null
        (0, snd (snd (extract_entities sample_scanner sample_uuid ''parrot'' Null (0, fresh_regex_state)))))))
     = [Val ''process'']"
  by code_simp

end
